theory Spec2Isabelle
  imports
    Complex_Main
    "HOL-Library.Multiset"
    "HOL-Library.Sublist"
    "HOL-Library.Char_ord"
    "HOL-Library.List_Lexorder"
    "HOL-Library.AList"
begin

section \<open>Values shared by the services\<close>

text \<open>
  A Python exception is its type name and its message; FastAPI's \<open>HTTPException\<close>
  carries a status code and a detail string. A function that can raise returns
  \<open>exn + 'a\<close>, with \<open>Inl\<close> for the exception.
\<close>

datatype exn =
    Raised string string
  | HTTPException nat string

fun type_name :: "exn \<Rightarrow> string" where
  "type_name (Raised t m) = t"
| "type_name (HTTPException s d) = ''HTTPException''"

text \<open>
  A finite Python float is a sign bit and the exact value of its absolute
  value (every finite double is a real number); the sign bit keeps \<open>-0.0\<close>
  apart from \<open>0.0\<close>, which print differently.
\<close>

datatype pyfloat = PyFloat (sign_bit: bool) (magnitude: real)

text \<open>Timestamps are microseconds since the epoch, the resolution of \<open>datetime\<close>.\<close>

type_synonym timestamp = int

text \<open>Python's \<open>xs[:m]\<close>: a negative \<open>m\<close> counts from the end.\<close>

definition py_slice_to :: "int \<Rightarrow> 'a list \<Rightarrow> 'a list" where
  "py_slice_to m xs =
     (if 0 \<le> m then take (nat m) xs else take (length xs - nat (- m)) xs)"

section \<open>google\_places.py: the provider client\<close>

text \<open>
  One place of a provider reply, with the fields the service reads: \<open>id\<close>,
  \<open>displayName.text\<close>, \<open>formattedAddress\<close>, \<open>location.latitude\<close>,
  \<open>location.longitude\<close>, \<open>primaryType\<close>, \<open>types\<close>, \<open>rating\<close>,
  \<open>userRatingCount\<close>, \<open>priceLevel\<close>, \<open>nationalPhoneNumber\<close>, \<open>websiteUri\<close>.
  A key the reply leaves out is \<open>None\<close>, as \<open>dict.get\<close> returns it.
\<close>

record place =
  place_id :: "string option"
  displayName_text :: "string option"
  formattedAddress :: "string option"
  location_latitude :: "pyfloat option"
  location_longitude :: "pyfloat option"
  primaryType :: "string option"
  place_types :: "string list option"
  place_rating :: "pyfloat option"
  userRatingCount :: "int option"
  priceLevel :: "string option"
  nationalPhoneNumber :: "string option"
  websiteUri :: "string option"

text \<open>The metadata dictionary \<open>search_nearby\<close> returns beside the places.\<close>

record meta =
  meta_requests_made :: nat
  meta_max_requests :: nat
  meta_raw_places :: nat
  meta_unique_places :: nat
  meta_truncated :: bool

text \<open>
  What the world outside the process does during one request:
  \<^item> \<open>now\<close>: the reading of the clock, one instant for the whole request;
  \<^item> \<open>client_error\<close>: the exception \<open>_get_client\<close> raises, if it raises;
  \<^item> \<open>provider\<close>: for the request body of one group (centre, radius, included
    types), either the exception raised inside \<open>fetch_group\<close>'s \<open>try\<close> (transport
    error, timeout, error status, a body that is not JSON) or the list
    \<open>data.get("places", [])\<close> of a reply that follows the provider's schema;
  \<^item> \<open>latency\<close>: how long the request of a group takes to settle, which fixes the
    order in which the concurrent requests complete;
  \<^item> \<open>db_error\<close>: the exception a statement on the \<open>restaurants\<close> table raises, if
    the store is failing;
  \<^item> \<open>cache_error\<close>: the exception a call of the cache backend's driver raises, if
    the cache backend is failing.
\<close>

record env =
  now :: timestamp
  client_error :: "exn option"
  provider :: "pyfloat \<Rightarrow> pyfloat \<Rightarrow> int \<Rightarrow> string list \<Rightarrow> exn + place list"
  latency :: "string list \<Rightarrow> nat"
  db_error :: "exn option"
  cache_error :: "exn option"

definition DEFAULT_TYPE_GROUPS :: "string list list" where
  "DEFAULT_TYPE_GROUPS =
    [[''restaurant''],
     [''american_restaurant'', ''hamburger_restaurant'', ''steak_house''],
     [''italian_restaurant'', ''pizza_restaurant''],
     [''mexican_restaurant'', ''spanish_restaurant''],
     [''chinese_restaurant'', ''japanese_restaurant'', ''sushi_restaurant''],
     [''korean_restaurant'', ''thai_restaurant'', ''vietnamese_restaurant''],
     [''indian_restaurant'', ''mediterranean_restaurant'', ''greek_restaurant''],
     [''fast_food_restaurant'', ''sandwich_shop'', ''meal_takeaway''],
     [''cafe'', ''coffee_shop'', ''bakery''],
     [''ice_cream_shop'', ''bar'', ''juice_shop''],
     [''vegan_restaurant'', ''vegetarian_restaurant''],
     [''middle_eastern_restaurant'', ''french_restaurant''],
     [''seafood_restaurant''],
     [''barbecue_restaurant'', ''ramen_restaurant''],
     [''breakfast_restaurant'', ''brunch_restaurant'']]"

text \<open>
  \<open>if included_types and len(included_types) > 0\<close>: one group of at most ten types,
  otherwise the default groups, at most fifteen.
\<close>

definition type_groups_of :: "string list option \<Rightarrow> string list list" where
  "type_groups_of included_types =
     (case included_types of
        None \<Rightarrow> take 15 DEFAULT_TYPE_GROUPS
      | Some ts \<Rightarrow> if ts \<noteq> [] then [take 10 ts] else take 15 DEFAULT_TYPE_GROUPS)"

text \<open>
  \<open>fetch_group\<close>: every exception of the request is caught and the group answers the
  empty list.
\<close>

definition fetch_group ::
  "env \<Rightarrow> pyfloat \<Rightarrow> pyfloat \<Rightarrow> int \<Rightarrow> string list \<Rightarrow> place list" where
  "fetch_group e lat lng radius types =
     (case provider e lat lng radius types of
        Inl err \<Rightarrow> []
      | Inr places \<Rightarrow> places)"

text \<open>
  \<open>asyncio.gather\<close>: the tasks run concurrently and settle in the order of their
  latencies; each result is stored in the slot of its task as the task completes, and
  the slots are read in the order the tasks were passed once all have settled.
\<close>

definition completion_order :: "(nat \<Rightarrow> nat) \<Rightarrow> nat \<Rightarrow> nat list" where
  "completion_order lat n = sort_key lat [0..<n]"

definition gather :: "(nat \<Rightarrow> nat) \<Rightarrow> 'a list \<Rightarrow> 'a list" where
  "gather lat tasks =
     List.map_filter (\<lambda>slot. slot)
       (fold (\<lambda>i slots. slots[i := Some (tasks ! i)])
          (completion_order lat (length tasks))
          (replicate (length tasks) None))"

text \<open>
  The dictionary \<open>all_places\<close> keeps insertion order: it is the list of its items,
  a new key going to the end. \<open>if place_id and place_id not in all_places\<close>: the id
  is present, not the empty string, and not yet a key.
\<close>

type_synonym places_dict = "(string \<times> place) list"

definition add_place :: "place \<Rightarrow> places_dict \<Rightarrow> places_dict" where
  "add_place p d =
     (case place_id p of
        None \<Rightarrow> d
      | Some pid \<Rightarrow> if pid \<noteq> [] \<and> map_of d pid = None then d @ [(pid, p)] else d)"

primrec merge_places :: "place list \<Rightarrow> places_dict \<Rightarrow> places_dict" where
  "merge_places [] d = d"
| "merge_places (p # ps) d = merge_places ps (add_place p d)"

primrec process_results ::
  "place list list \<Rightarrow> places_dict \<times> nat \<Rightarrow> places_dict \<times> nat" where
  "process_results [] s = s"
| "process_results (places # rest) s =
     process_results rest (merge_places places (fst s), snd s + length places)"

definition search_nearby ::
  "env \<Rightarrow> pyfloat \<Rightarrow> pyfloat \<Rightarrow> int \<Rightarrow> string list option \<Rightarrow> int
     \<Rightarrow> exn + (place list \<times> meta)" where
  "search_nearby e lat lng radius included_types max_results =
     (case client_error e of
        Some err \<Rightarrow> Inl err
      | None \<Rightarrow>
          let type_groups = type_groups_of included_types;
              results = gather (\<lambda>i. latency e (type_groups ! i))
                          (map (fetch_group e lat lng radius) type_groups);
              s = process_results results ([], 0);
              all_places = fst s;
              raw_places_count = snd s;
              result_list = map snd all_places;
              truncated = (int (length result_list) > max_results);
              final_result = py_slice_to max_results result_list
          in Inr (final_result,
                  \<lparr>meta_requests_made = length type_groups,
                   meta_max_requests = length type_groups,
                   meta_raw_places = raw_places_count,
                   meta_unique_places = length all_places,
                   meta_truncated = truncated\<rparr>))"

section \<open>cache/base.py: the cache key\<close>

text \<open>
  \<open>round(x, 3)\<close> on a float: the exact value is rounded to the nearest multiple of
  \<open>1/1000\<close>, a tie going to the even multiple, and the sign is kept (so
  \<open>round(-0.0001, 3)\<close> is \<open>-0.0\<close>).
\<close>

definition round_half_even :: "real \<Rightarrow> int" where
  "round_half_even x =
     (let f = \<lfloor>x\<rfloor>; r = x - of_int f
      in if r < 1 / 2 then f
         else if 1 / 2 < r then f + 1
         else if even f then f else f + 1)"

definition py_round3 :: "pyfloat \<Rightarrow> pyfloat" where
  "py_round3 x =
     PyFloat (sign_bit x) (of_int (round_half_even (\<bar>magnitude x\<bar> * 1000)) / 1000)"

definition digit_char :: "nat \<Rightarrow> char" where
  "digit_char d = ''0123456789'' ! d"

fun str_nat :: "nat \<Rightarrow> string" where
  "str_nat n = (if n < 10 then [digit_char n] else str_nat (n div 10) @ [digit_char (n mod 10)])"

declare str_nat.simps [simp del]

definition str_int :: "int \<Rightarrow> string" where
  "str_int i = (if i < 0 then ''-'' @ str_nat (nat (- i)) else str_nat (nat i))"

text \<open>
  \<open>str\<close> of a float that is a multiple of \<open>1/1000\<close> and below \<open>10^16\<close> in
  absolute value (the shortest decimal that reads back as the same double): the integer
  part, a point, and the three decimals without their trailing zeros, one digit at least.
\<close>

definition str_float3 :: "pyfloat \<Rightarrow> string" where
  "str_float3 x =
     (let n = nat \<lfloor>\<bar>magnitude x\<bar> * 1000\<rfloor>;
          d1 = (n div 100) mod 10; d2 = (n div 10) mod 10; d3 = n mod 10
      in (if sign_bit x then ''-'' else '''') @ str_nat (n div 1000) @ ''.'' @
         (if d3 \<noteq> 0 then [digit_char d1, digit_char d2, digit_char d3]
          else if d2 \<noteq> 0 then [digit_char d1, digit_char d2]
          else [digit_char d1]))"

fun join :: "string \<Rightarrow> string list \<Rightarrow> string" where
  "join sep [] = []"
| "join sep [x] = x"
| "join sep (x # y # ys) = x @ sep @ join sep (y # ys)"

definition generate_cache_key :: "pyfloat \<Rightarrow> pyfloat \<Rightarrow> int \<Rightarrow> string list \<Rightarrow> string" where
  "generate_cache_key lat lng radius types =
     (let lat_rounded = py_round3 lat;
          lng_rounded = py_round3 lng;
          types_sorted = join '','' (sort types)
      in ''nearby:'' @ str_float3 lat_rounded @ '':'' @ str_float3 lng_rounded @ '':'' @
         str_int radius @ '':'' @ types_sorted)"

section \<open>cache/postgres.py and cache/redis.py: the cache backends\<close>

text \<open>
  A row of \<open>nearby_query_cache\<close>; the table is the list of its rows under their
  primary key \<open>cache_key\<close>, one row for a key, which \<open>map_of\<close> selects.
\<close>

record cache_row =
  restaurant_place_ids :: "string list"
  expires_at :: timestamp
  cache_created_at :: timestamp

type_synonym cache_table = "(string \<times> cache_row) list"

text \<open>\<open>timedelta(seconds=ttl_seconds)\<close> in microseconds.\<close>

definition timedelta_seconds :: "int \<Rightarrow> int" where
  "timedelta_seconds s = s * 1000000"

text \<open>
  The methods of \<open>PostgresCache\<close>. Nothing is caught: an exception of the session
  leaves the method, and the table is as it was.
\<close>

definition PostgresCache_get ::
  "exn option \<Rightarrow> timestamp \<Rightarrow> cache_table \<Rightarrow> string \<Rightarrow> exn + string list option" where
  "PostgresCache_get err t tbl key =
     (case err of
        Some e \<Rightarrow> Inl e
      | None \<Rightarrow>
          (case map_of tbl key of
             Some entry \<Rightarrow>
               if t < expires_at entry then Inr (Some (restaurant_place_ids entry))
               else Inr None
           | None \<Rightarrow> Inr None))"

definition PostgresCache_set ::
  "exn option \<Rightarrow> timestamp \<Rightarrow> cache_table \<Rightarrow> string \<Rightarrow> string list \<Rightarrow> int
     \<Rightarrow> (exn + unit) \<times> cache_table" where
  "PostgresCache_set err t tbl key place_ids ttl_seconds =
     (case err of
        Some e \<Rightarrow> (Inl e, tbl)
      | None \<Rightarrow>
          let expires = t + timedelta_seconds ttl_seconds
          in (Inr (),
              AList.update key
                (case map_of tbl key of
                   None \<Rightarrow> \<lparr>restaurant_place_ids = place_ids, expires_at = expires,
                            cache_created_at = t\<rparr>
                 | Some row \<Rightarrow> row\<lparr>restaurant_place_ids := place_ids, expires_at := expires\<rparr>)
                tbl))"

definition PostgresCache_delete ::
  "exn option \<Rightarrow> cache_table \<Rightarrow> string \<Rightarrow> (exn + bool) \<times> cache_table" where
  "PostgresCache_delete err tbl key =
     (case err of
        Some e \<Rightarrow> (Inl e, tbl)
      | None \<Rightarrow> (Inr (map_of tbl key \<noteq> None), AList.delete key tbl))"

definition PostgresCache_cleanup_expired ::
  "exn option \<Rightarrow> timestamp \<Rightarrow> cache_table \<Rightarrow> (exn + nat) \<times> cache_table" where
  "PostgresCache_cleanup_expired err t tbl =
     (case err of
        Some e \<Rightarrow> (Inl e, tbl)
      | None \<Rightarrow> (Inr (length (filter (\<lambda>(k, row). expires_at row \<le> t) tbl)),
                 filter (\<lambda>(k, row). \<not> expires_at row \<le> t) tbl))"

text \<open>
  The Redis server as the client sees it: under each key the stored list (the text
  \<open>json.dumps(place_ids)\<close>, which \<open>json.loads\<close> reads back as the same list and which
  is never the empty string) and the instant the key expires. A call of the client
  raises when the backend is failing; \<open>SETEX\<close> refuses a time to live that is not
  positive.
\<close>

type_synonym redis_store = "(string \<times> string list \<times> timestamp) list"

definition redis_get ::
  "exn option \<Rightarrow> timestamp \<Rightarrow> redis_store \<Rightarrow> string \<Rightarrow> exn + string list option" where
  "redis_get err t store key =
     (case err of
        Some e \<Rightarrow> Inl e
      | None \<Rightarrow>
          (case map_of store key of
             None \<Rightarrow> Inr None
           | Some (data, expires) \<Rightarrow> if t < expires then Inr (Some data) else Inr None))"

definition redis_setex ::
  "exn option \<Rightarrow> timestamp \<Rightarrow> redis_store \<Rightarrow> string \<Rightarrow> int \<Rightarrow> string list
     \<Rightarrow> (exn + unit) \<times> redis_store" where
  "redis_setex err t store key ttl_seconds data =
     (case err of
        Some e \<Rightarrow> (Inl e, store)
      | None \<Rightarrow>
          if ttl_seconds \<le> 0
          then (Inl (Raised ''ResponseError'' ''invalid expire time in setex''), store)
          else (Inr (), AList.update key (data, t + timedelta_seconds ttl_seconds) store))"

definition redis_delete ::
  "exn option \<Rightarrow> timestamp \<Rightarrow> redis_store \<Rightarrow> string \<Rightarrow> (exn + int) \<times> redis_store" where
  "redis_delete err t store key =
     (case err of
        Some e \<Rightarrow> (Inl e, store)
      | None \<Rightarrow>
          (case map_of store key of
             None \<Rightarrow> (Inr 0, store)
           | Some (data, expires) \<Rightarrow>
               (Inr (if t < expires then 1 else 0), AList.delete key store)))"

text \<open>
  The methods of \<open>RedisCache\<close>: each body is a \<open>try\<close> whose \<open>except Exception\<close>
  logs a warning and returns \<open>None\<close>, nothing, or \<open>False\<close>.
\<close>

definition RedisCache_get ::
  "exn option \<Rightarrow> timestamp \<Rightarrow> redis_store \<Rightarrow> string \<Rightarrow> exn + string list option" where
  "RedisCache_get err t store key =
     (case redis_get err t store key of
        Inl e \<Rightarrow> Inr None
      | Inr data \<Rightarrow> (case data of Some ids \<Rightarrow> Inr (Some ids) | None \<Rightarrow> Inr None))"

definition RedisCache_set ::
  "exn option \<Rightarrow> timestamp \<Rightarrow> redis_store \<Rightarrow> string \<Rightarrow> string list \<Rightarrow> int
     \<Rightarrow> (exn + unit) \<times> redis_store" where
  "RedisCache_set err t store key place_ids ttl_seconds =
     (case redis_setex err t store key ttl_seconds place_ids of
        (Inl e, store') \<Rightarrow> (Inr (), store')
      | (Inr u, store') \<Rightarrow> (Inr (), store'))"

definition RedisCache_delete ::
  "exn option \<Rightarrow> timestamp \<Rightarrow> redis_store \<Rightarrow> string \<Rightarrow> (exn + bool) \<times> redis_store" where
  "RedisCache_delete err t store key =
     (case redis_delete err t store key of
        (Inl e, store') \<Rightarrow> (Inr False, store')
      | (Inr result, store') \<Rightarrow> (Inr (0 < result), store'))"

definition RedisCache_cleanup_expired :: "redis_store \<Rightarrow> (exn + nat) \<times> redis_store" where
  "RedisCache_cleanup_expired store = (Inr 0, store)"

text \<open>The instance \<open>get_cache\<close> returns is one of the two backends.\<close>

datatype cache_backend =
    PostgresCache cache_table
  | RedisCache redis_store

fun cache_get ::
  "exn option \<Rightarrow> timestamp \<Rightarrow> cache_backend \<Rightarrow> string \<Rightarrow> exn + string list option" where
  "cache_get err t (PostgresCache tbl) key = PostgresCache_get err t tbl key"
| "cache_get err t (RedisCache store) key = RedisCache_get err t store key"

fun cache_set ::
  "exn option \<Rightarrow> timestamp \<Rightarrow> cache_backend \<Rightarrow> string \<Rightarrow> string list \<Rightarrow> int
     \<Rightarrow> (exn + unit) \<times> cache_backend" where
  "cache_set err t (PostgresCache tbl) key place_ids ttl_seconds =
     map_prod id PostgresCache (PostgresCache_set err t tbl key place_ids ttl_seconds)"
| "cache_set err t (RedisCache store) key place_ids ttl_seconds =
     map_prod id RedisCache (RedisCache_set err t store key place_ids ttl_seconds)"

section \<open>google\_places.py: the normalizer\<close>

text \<open>The dictionary \<open>parse_google_place\<close> builds, one field for each key.\<close>

record restaurant_data =
  d_google_place_id :: "string option"
  d_name :: "string option"
  d_formatted_address :: "string option"
  d_lat :: "pyfloat option"
  d_lng :: "pyfloat option"
  d_primary_type :: "string option"
  d_types :: "string list"
  d_rating :: "pyfloat option"
  d_user_rating_count :: "int option"
  d_price_level :: "int option"
  d_phone :: "string option"
  d_website :: "string option"
  d_provider_payload :: place
  d_last_fetched_at :: timestamp

definition price_level_map :: "string \<Rightarrow> int option" where
  "price_level_map s =
     (if s = ''PRICE_LEVEL_FREE'' then Some 0
      else if s = ''PRICE_LEVEL_INEXPENSIVE'' then Some 1
      else if s = ''PRICE_LEVEL_MODERATE'' then Some 2
      else if s = ''PRICE_LEVEL_EXPENSIVE'' then Some 3
      else if s = ''PRICE_LEVEL_VERY_EXPENSIVE'' then Some 4
      else None)"

definition parse_google_place :: "timestamp \<Rightarrow> place \<Rightarrow> restaurant_data" where
  "parse_google_place t p =
     \<lparr>d_google_place_id = place_id p,
      d_name = displayName_text p,
      d_formatted_address = formattedAddress p,
      d_lat = location_latitude p,
      d_lng = location_longitude p,
      d_primary_type = primaryType p,
      d_types = (case place_types p of None \<Rightarrow> [] | Some ts \<Rightarrow> ts),
      d_rating = place_rating p,
      d_user_rating_count = userRatingCount p,
      d_price_level =
        (case priceLevel p of
           None \<Rightarrow> None
         | Some s \<Rightarrow> if s \<noteq> [] then price_level_map s else None),
      d_phone = nationalPhoneNumber p,
      d_website = websiteUri p,
      d_provider_payload = p,
      d_last_fetched_at = t\<rparr>"

section \<open>db.py: the restaurants table\<close>

text \<open>
  A row of \<open>restaurants\<close> (models.py): \<open>google_place_id\<close> is not nullable and
  unique; \<open>id\<close> is generated by the server, here from a sequence.
\<close>

record restaurant =
  row_id :: nat
  google_place_id :: string
  row_name :: "string option"
  formatted_address :: "string option"
  row_lat :: "pyfloat option"
  row_lng :: "pyfloat option"
  primary_type :: "string option"
  row_types :: "string list"
  rating :: "pyfloat option"
  user_rating_count :: "int option"
  price_level :: "int option"
  phone :: "string option"
  website :: "string option"
  provider_payload :: place
  last_fetched_at :: timestamp
  created_at :: timestamp
  updated_at :: timestamp

text \<open>
  The process-wide state: the two tables of the database (or the Redis store, when that
  backend is configured) and the id sequence.
\<close>

record world =
  restaurants_table :: "restaurant list"
  id_seq :: nat
  cache :: cache_backend

text \<open>
  \<open>INSERT ... ON CONFLICT (google_place_id) DO UPDATE\<close> for one row of the batch: a
  row with that \<open>google_place_id\<close> gets the thirteen columns of \<open>update_dict\<close> and
  keeps \<open>id\<close>, \<open>google_place_id\<close>, \<open>created_at\<close> and \<open>updated_at\<close>; otherwise a new
  row is appended with the server defaults.
\<close>

definition upsert_row ::
  "timestamp \<Rightarrow> restaurant_data \<Rightarrow> string \<Rightarrow> restaurant list \<times> nat
     \<Rightarrow> restaurant \<times> (restaurant list \<times> nat)" where
  "upsert_row t d gpid s =
     (case find (\<lambda>r. google_place_id r = gpid) (fst s) of
        Some r \<Rightarrow>
          let r' = r\<lparr>row_name := d_name d,
                     formatted_address := d_formatted_address d,
                     row_lat := d_lat d,
                     row_lng := d_lng d,
                     primary_type := d_primary_type d,
                     row_types := d_types d,
                     rating := d_rating d,
                     user_rating_count := d_user_rating_count d,
                     price_level := d_price_level d,
                     phone := d_phone d,
                     website := d_website d,
                     provider_payload := d_provider_payload d,
                     last_fetched_at := d_last_fetched_at d\<rparr>
          in (r', (map (\<lambda>x. if google_place_id x = gpid then r' else x) (fst s), snd s))
      | None \<Rightarrow>
          let r' = \<lparr>row_id = snd s,
                    google_place_id = gpid,
                    row_name = d_name d,
                    formatted_address = d_formatted_address d,
                    row_lat = d_lat d,
                    row_lng = d_lng d,
                    primary_type = d_primary_type d,
                    row_types = d_types d,
                    rating = d_rating d,
                    user_rating_count = d_user_rating_count d,
                    price_level = d_price_level d,
                    phone = d_phone d,
                    website = d_website d,
                    provider_payload = d_provider_payload d,
                    last_fetched_at = d_last_fetched_at d,
                    created_at = t,
                    updated_at = t\<rparr>
          in (r', (fst s @ [r'], Suc (snd s))))"

text \<open>
  The rows of the statement in order, with the ids the statement has already proposed.
  The statement fails as a whole on a null \<open>google_place_id\<close> and on an id proposed
  twice; the rows it returns (\<open>RETURNING\<close>) are in the order of the batch.
\<close>

primrec upsert_rows ::
  "timestamp \<Rightarrow> restaurant_data list \<Rightarrow> string list \<Rightarrow> restaurant list \<times> nat
     \<Rightarrow> exn + (restaurant list \<times> (restaurant list \<times> nat))" where
  "upsert_rows t [] seen s = Inr ([], s)"
| "upsert_rows t (d # ds) seen s =
     (case d_google_place_id d of
        None \<Rightarrow> Inl (Raised ''IntegrityError'' ''null value in column google_place_id'')
      | Some gpid \<Rightarrow>
          if gpid \<in> set seen
          then Inl (Raised ''CardinalityViolation''
                      ''ON CONFLICT DO UPDATE command cannot affect row a second time'')
          else (case upsert_rows t ds (gpid # seen) (snd (upsert_row t d gpid s)) of
                  Inl err \<Rightarrow> Inl err
                | Inr (rs, s') \<Rightarrow> Inr (fst (upsert_row t d gpid s) # rs, s')))"

definition upsert_restaurants ::
  "env \<Rightarrow> world \<Rightarrow> restaurant_data list \<Rightarrow> exn + (restaurant list \<times> world)" where
  "upsert_restaurants e w restaurants_data =
     (if restaurants_data = [] then Inr ([], w)
      else (case db_error e of
              Some err \<Rightarrow> Inl err
            | None \<Rightarrow>
                (case upsert_rows (now e) restaurants_data [] (restaurants_table w, id_seq w) of
                   Inl err \<Rightarrow> Inl err
                 | Inr (rows, s) \<Rightarrow>
                     Inr (rows, w\<lparr>restaurants_table := fst s, id_seq := snd s\<rparr>))))"

definition get_restaurants_by_place_ids ::
  "env \<Rightarrow> world \<Rightarrow> string list \<Rightarrow> exn + restaurant list" where
  "get_restaurants_by_place_ids e w place_ids =
     (if place_ids = [] then Inr []
      else (case db_error e of
              Some err \<Rightarrow> Inl err
            | None \<Rightarrow>
                Inr (filter (\<lambda>r. google_place_id r \<in> set place_ids) (restaurants_table w))))"

section \<open>main.py: the nearby search endpoint\<close>

record settings =
  nearby_cache_ttl_seconds :: int

record request =
  req_lat :: pyfloat
  req_lng :: pyfloat
  req_radius :: int
  req_max_results :: int
  req_included_types :: "string list option"

text \<open>
  \<open>NearbySearchResponse\<close>; the restaurants are the rows, of which
  \<open>RestaurantResponse.model_validate\<close> copies the public attributes.
\<close>

record response =
  resp_restaurants :: "restaurant list"
  resp_count :: nat
  resp_cached :: bool
  resp_cache_key :: "string option"
  resp_requests_made :: "nat option"
  resp_max_requests :: "nat option"
  resp_raw_places :: "nat option"
  resp_unique_places :: "nat option"
  resp_truncated :: "bool option"

text \<open>
  \<open>search_nearby_restaurants\<close>. An exception that nothing catches leaves the handler
  as it is; the two \<open>try\<close> blocks turn theirs into \<open>HTTPException(503)\<close> and
  \<open>HTTPException(500)\<close>.
\<close>

definition search_nearby_restaurants ::
  "settings \<Rightarrow> env \<Rightarrow> request \<Rightarrow> string option \<Rightarrow> world \<Rightarrow> (exn + response) \<times> world" where
  "search_nearby_restaurants cfg e request x_skip_cache w =
     (let skip_cache = (x_skip_cache = Some ''true'');
          cache_key = generate_cache_key (req_lat request) (req_lng request)
                        (req_radius request)
                        (case req_included_types request of None \<Rightarrow> [] | Some ts \<Rightarrow> ts);
          cached_place_ids =
            (if \<not> skip_cache then cache_get (cache_error e) (now e) (cache w) cache_key
             else Inr None)
      in case cached_place_ids of
           Inl err \<Rightarrow> (Inl err, w)
         | Inr (Some ids) \<Rightarrow>
             (case get_restaurants_by_place_ids e w ids of
                Inl err \<Rightarrow> (Inl err, w)
              | Inr restaurants \<Rightarrow>
                  (Inr \<lparr>resp_restaurants = restaurants,
                        resp_count = length restaurants,
                        resp_cached = True,
                        resp_cache_key = Some cache_key,
                        resp_requests_made = None,
                        resp_max_requests = None,
                        resp_raw_places = None,
                        resp_unique_places = None,
                        resp_truncated = None\<rparr>, w))
         | Inr None \<Rightarrow>
             (case search_nearby e (req_lat request) (req_lng request) (req_radius request)
                     (req_included_types request) (req_max_results request) of
                Inl err \<Rightarrow>
                  (Inl (HTTPException 503 ''Restaurant search temporarily unavailable''), w)
              | Inr (places, places_meta) \<Rightarrow>
                  if places = []
                  then (Inr \<lparr>resp_restaurants = [],
                             resp_count = 0,
                             resp_cached = False,
                             resp_cache_key = Some cache_key,
                             resp_requests_made = Some (meta_requests_made places_meta),
                             resp_max_requests = Some (meta_max_requests places_meta),
                             resp_raw_places = Some (meta_raw_places places_meta),
                             resp_unique_places = Some (meta_unique_places places_meta),
                             resp_truncated = Some (meta_truncated places_meta)\<rparr>, w)
                  else
                    (case upsert_restaurants e w (map (parse_google_place (now e)) places) of
                       Inl err \<Rightarrow>
                         (Inl (HTTPException 500
                                 (''Failed to process search results: '' @ type_name err)), w)
                     | Inr (restaurants, w1) \<Rightarrow>
                         (case cache_set (cache_error e) (now e) (cache w1) cache_key
                                 (map google_place_id restaurants)
                                 (nearby_cache_ttl_seconds cfg) of
                            (Inl err, c) \<Rightarrow>
                              (Inl (HTTPException 500
                                      (''Failed to process search results: '' @ type_name err)),
                               w1\<lparr>cache := c\<rparr>)
                          | (Inr u, c) \<Rightarrow>
                              (Inr \<lparr>resp_restaurants = restaurants,
                                    resp_count = length restaurants,
                                    resp_cached = False,
                                    resp_cache_key = Some cache_key,
                                    resp_requests_made = Some (meta_requests_made places_meta),
                                    resp_max_requests = Some (meta_max_requests places_meta),
                                    resp_raw_places = Some (meta_raw_places places_meta),
                                    resp_unique_places = Some (meta_unique_places places_meta),
                                    resp_truncated = Some (meta_truncated places_meta)\<rparr>,
                               w1\<lparr>cache := c\<rparr>)))))"

section \<open>Vocabulary of the properties\<close>

text \<open>The records of all groups before the merge, in the order the groups were passed.\<close>

definition raw_records ::
  "env \<Rightarrow> pyfloat \<Rightarrow> pyfloat \<Rightarrow> int \<Rightarrow> string list option \<Rightarrow> place list" where
  "raw_records e lat lng radius included_types =
     concat (map (fetch_group e lat lng radius) (type_groups_of included_types))"

text \<open>The merge of a list of records into the empty dictionary, as a list of values.\<close>

definition dedupe :: "place list \<Rightarrow> place list" where
  "dedupe ps = map snd (merge_places ps [])"

text \<open>
  The ids of a list of records that the merge looks at (present and not empty), in
  order, and the elements of a list in the order of their first occurrence.
\<close>

fun provider_ids :: "place list \<Rightarrow> string list" where
  "provider_ids [] = []"
| "provider_ids (p # ps) =
     (case place_id p of
        None \<Rightarrow> provider_ids ps
      | Some k \<Rightarrow> if k \<noteq> [] then k # provider_ids ps else provider_ids ps)"

definition first_seen :: "'a list \<Rightarrow> 'a list" where
  "first_seen xs = rev (remdups (rev xs))"

text \<open>The groups whose request did not raise, and the records they answered.\<close>

definition successful_groups ::
  "env \<Rightarrow> pyfloat \<Rightarrow> pyfloat \<Rightarrow> int \<Rightarrow> string list option \<Rightarrow> string list list" where
  "successful_groups e lat lng radius included_types =
     filter (\<lambda>g. \<not> isl (provider e lat lng radius g)) (type_groups_of included_types)"

definition successful_records ::
  "env \<Rightarrow> pyfloat \<Rightarrow> pyfloat \<Rightarrow> int \<Rightarrow> string list option \<Rightarrow> place list" where
  "successful_records e lat lng radius included_types =
     concat (map (\<lambda>g. projr (provider e lat lng radius g))
               (successful_groups e lat lng radius included_types))"

text \<open>
  Two floats that differ only from the fourth decimal place on: the same sign and the
  same digits up to the third decimal.
\<close>

definition same_to_3dp :: "pyfloat \<Rightarrow> pyfloat \<Rightarrow> bool" where
  "same_to_3dp x y =
     (sign_bit x = sign_bit y \<and>
      \<lfloor>\<bar>magnitude x\<bar> * 1000\<rfloor> = \<lfloor>\<bar>magnitude y\<bar> * 1000\<rfloor>)"

text \<open>
  For a request: its cache key, the condition under which the handler goes on to the
  provider (the header asks to skip the cache, or the lookup misses), the fetch it then
  makes, and the response it gives to a fetch without places.
\<close>

definition request_key :: "request \<Rightarrow> string" where
  "request_key request =
     generate_cache_key (req_lat request) (req_lng request) (req_radius request)
       (case req_included_types request of None \<Rightarrow> [] | Some ts \<Rightarrow> ts)"

definition reaches_fetch :: "env \<Rightarrow> request \<Rightarrow> string option \<Rightarrow> world \<Rightarrow> bool" where
  "reaches_fetch e request x_skip_cache w =
     (x_skip_cache = Some ''true'' \<or>
      cache_get (cache_error e) (now e) (cache w) (request_key request) = Inr None)"

definition fetch_of :: "env \<Rightarrow> request \<Rightarrow> exn + (place list \<times> meta)" where
  "fetch_of e request =
     search_nearby e (req_lat request) (req_lng request) (req_radius request)
       (req_included_types request) (req_max_results request)"

definition empty_response :: "request \<Rightarrow> meta \<Rightarrow> response" where
  "empty_response request m =
     \<lparr>resp_restaurants = [], resp_count = 0, resp_cached = False,
      resp_cache_key = Some (request_key request),
      resp_requests_made = Some (meta_requests_made m),
      resp_max_requests = Some (meta_max_requests m),
      resp_raw_places = Some (meta_raw_places m),
      resp_unique_places = Some (meta_unique_places m),
      resp_truncated = Some (meta_truncated m)\<rparr>"

section \<open>Example inputs\<close>

definition demo_place :: "string \<Rightarrow> string \<Rightarrow> place" where
  "demo_place pid name =
     \<lparr>place_id = Some pid, displayName_text = Some name, formattedAddress = None,
      location_latitude = None, location_longitude = None, primaryType = None,
      place_types = None, place_rating = None, userRatingCount = None,
      priceLevel = None, nationalPhoneNumber = None, websiteUri = None\<rparr>"

definition demo_provider ::
  "pyfloat \<Rightarrow> pyfloat \<Rightarrow> int \<Rightarrow> string list \<Rightarrow> exn + place list" where
  "demo_provider lat lng radius types =
     (if types = [''restaurant'']
      then Inr [demo_place ''a'' ''Alpha'', demo_place ''b'' ''Beta'']
      else if types = [''cafe'', ''coffee_shop'', ''bakery'']
      then Inr [demo_place ''b'' ''Beta Cafe'', demo_place ''c'' ''Gamma'']
      else if types = [''seafood_restaurant'']
      then Inl (Raised ''ReadTimeout'' '''')
      else Inr [])"

definition demo_env :: env where
  "demo_env =
     \<lparr>now = 1000000, client_error = None, provider = demo_provider,
      latency = (\<lambda>types. 100 - length (concat types)),
      db_error = None, cache_error = None\<rparr>"

definition demo_lat :: pyfloat where "demo_lat = PyFloat False (407128 / 10000)"
definition demo_lng :: pyfloat where "demo_lng = PyFloat True (74006 / 1000)"


definition demo_settings :: settings where
  "demo_settings = \<lparr>nearby_cache_ttl_seconds = 900\<rparr>"

definition demo_request :: request where
  "demo_request =
     \<lparr>req_lat = demo_lat, req_lng = demo_lng, req_radius = 1500, req_max_results = 300,
      req_included_types = None\<rparr>"

definition demo_world :: world where
  "demo_world = \<lparr>restaurants_table = [], id_seq = 0, cache = PostgresCache []\<rparr>"

definition outage_env :: env where
  "outage_env =
     demo_env\<lparr>provider := \<lambda>lat lng radius types. Inl (Raised ''ConnectError'' ''unreachable'')\<rparr>"

definition quiet_env :: env where
  "quiet_env = demo_env\<lparr>provider := \<lambda>lat lng radius types. Inr []\<rparr>"

definition db_down_env :: env where
  "db_down_env =
     demo_env\<lparr>db_error := Some (Raised ''OperationalError'' ''connection refused'')\<rparr>"

section \<open>The fan-out and the merge\<close>

lemma fold_slots_nth:
  "j < length slots \<Longrightarrow>
   fold (\<lambda>i s. s[i := Some (f i)]) is slots ! j =
     (if j \<in> set is then Some (f j) else slots ! j)"
  by (induction "is" arbitrary: slots) (auto simp: nth_list_update)

lemma fold_slots_length:
  "length (fold (\<lambda>i s. s[i := Some (f i)]) is slots) = length slots"
  by (induction "is" arbitrary: slots) auto

lemma map_filter_Some: "List.map_filter (\<lambda>slot. slot) (map Some xs) = xs"
  by (induction xs) (auto simp: List.map_filter_simps)

lemma gather_settles: "gather lat tasks = tasks"
proof -
  let ?n = "length tasks"
  let ?slots = "fold (\<lambda>i slots. slots[i := Some (tasks ! i)])
                  (completion_order lat ?n) (replicate ?n None)"
  have "?slots = map Some tasks"
  proof (rule nth_equalityI)
    show "length ?slots = length (map Some tasks)"
      by (simp add: fold_slots_length)
  next
    fix j assume "j < length ?slots"
    then have j: "j < ?n" by (simp add: fold_slots_length)
    then have "j \<in> set (completion_order lat ?n)"
      by (simp add: completion_order_def)
    with j show "?slots ! j = map Some tasks ! j"
      by (simp add: fold_slots_nth)
  qed
  then show ?thesis by (simp add: gather_def map_filter_Some)
qed

lemma process_results_concat:
  "process_results results (d, n) =
     (merge_places (concat results) d, n + length (concat results))"
proof (induction results arbitrary: d n)
  case Nil
  then show ?case by simp
next
  case (Cons places rest)
  have "merge_places (places @ qs) d = merge_places qs (merge_places places d)" for qs
    by (induction places arbitrary: d) auto
  with Cons show ?case by simp
qed

lemma search_nearby_eq:
  "client_error e = None \<Longrightarrow>
   search_nearby e lat lng radius included_types max_results =
     Inr (py_slice_to max_results (dedupe (raw_records e lat lng radius included_types)),
          \<lparr>meta_requests_made = length (type_groups_of included_types),
           meta_max_requests = length (type_groups_of included_types),
           meta_raw_places = length (raw_records e lat lng radius included_types),
           meta_unique_places = length (dedupe (raw_records e lat lng radius included_types)),
           meta_truncated =
             (int (length (dedupe (raw_records e lat lng radius included_types)))
                > max_results)\<rparr>)"
  by (simp add: search_nearby_def gather_settles process_results_concat raw_records_def
      dedupe_def Let_def)

lemma remdups_snoc:
  "remdups (xs @ [x]) = filter (\<lambda>y. y \<noteq> x) (remdups xs) @ [x]"
  by (induction xs) auto

lemma first_seen_Cons: "first_seen (x # xs) = x # filter (\<lambda>y. y \<noteq> x) (first_seen xs)"
  by (simp add: first_seen_def remdups_snoc rev_filter)

lemma first_seen_Nil: "first_seen [] = []"
  by (simp add: first_seen_def)

lemma set_first_seen: "set (first_seen xs) = set xs"
  by (simp add: first_seen_def)

lemma distinct_first_seen: "distinct (first_seen xs)"
  by (simp add: first_seen_def)

lemma add_place_keys:
  "map fst (add_place p d) =
     (case place_id p of
        None \<Rightarrow> map fst d
      | Some k \<Rightarrow> if k \<noteq> [] \<and> k \<notin> set (map fst d) then map fst d @ [k] else map fst d)"
  by (auto simp: add_place_def map_of_eq_None_iff split: option.splits)

lemma merge_places_ids:
  "\<forall>(k, v) \<in> set d. place_id v = Some k \<and> k \<noteq> [] \<Longrightarrow>
   \<forall>(k, v) \<in> set (merge_places ps d). place_id v = Some k \<and> k \<noteq> []"
proof (induction ps arbitrary: d)
  case Nil
  then show ?case by simp
next
  case (Cons p ps)
  have "\<forall>(k, v) \<in> set (add_place p d). place_id v = Some k \<and> k \<noteq> []"
    using Cons.prems by (auto simp: add_place_def split: option.splits)
  then show ?case using Cons.IH by simp
qed

lemma merge_places_first:
  "(k, v) \<in> set (merge_places ps d) \<Longrightarrow> k \<noteq> [] \<Longrightarrow>
   (k, v) \<in> set d \<or>
   (k \<notin> fst ` set d \<and> find (\<lambda>q. place_id q = Some k) ps = Some v)"
proof (induction ps arbitrary: d)
  case Nil
  then show ?case by simp
next
  case (Cons p ps)
  from Cons.prems have "(k, v) \<in> set (merge_places ps (add_place p d))" by simp
  from Cons.IH[OF this Cons.prems(2)] Cons.prems(2)
  show ?case
    by (auto simp: add_place_def map_of_eq_None_iff split: option.splits if_splits)
qed

lemma merge_places_keys:
  "map fst (merge_places ps d) =
     map fst d @ filter (\<lambda>k. k \<notin> set (map fst d)) (first_seen (provider_ids ps))"
proof (induction ps arbitrary: d)
  case Nil
  then show ?case by (simp add: first_seen_Nil)
next
  case (Cons p ps)
  have step: "map fst (merge_places (p # ps) d) =
      map fst (add_place p d) @
        filter (\<lambda>k. k \<notin> set (map fst (add_place p d))) (first_seen (provider_ids ps))"
    using Cons.IH[of "add_place p d"] by simp
  show ?case
  proof (cases "place_id p")
    case None
    then show ?thesis using step by (simp add: add_place_keys)
  next
    case (Some k)
    show ?thesis
    proof (cases "k = []")
      case True
      then show ?thesis using step Some by (simp add: add_place_keys)
    next
      case False
      have conj_filter: "filter (\<lambda>x. x \<notin> set (map fst d) \<and> x \<noteq> k) xs =
                      filter (\<lambda>x. x \<notin> set (map fst d)) (filter (\<lambda>y. y \<noteq> k) xs)" for xs
        by (induction xs) auto
      show ?thesis
      proof (cases "k \<in> set (map fst d)")
        case True
        have "filter (\<lambda>x. x \<notin> set (map fst d)) (filter (\<lambda>y. y \<noteq> k) xs) =
              filter (\<lambda>x. x \<notin> set (map fst d)) xs" for xs
          using True by (induction xs) auto
        then show ?thesis
          using step Some False True by (simp add: add_place_keys first_seen_Cons)
      next
        case notin: False
        then show ?thesis
          using step Some False
          by (simp add: add_place_keys first_seen_Cons conj_filter)
      qed
    qed
  qed
qed

lemma py_slice_to_take: "\<exists>n. py_slice_to m xs = take n xs"
  by (auto simp: py_slice_to_def)

lemma py_slice_to_map: "map f (py_slice_to m xs) = py_slice_to m (map f xs)"
  by (simp add: py_slice_to_def take_map)

lemma py_slice_to_all: "int (length xs) \<le> m \<Longrightarrow> py_slice_to m xs = xs"
  by (simp add: py_slice_to_def)

lemma merge_places_keys_Nil:
  "map fst (merge_places ps []) = first_seen (provider_ids ps)"
  using merge_places_keys[of ps "[]"] by simp

lemma dedupe_ids: "map place_id (dedupe ps) = map Some (first_seen (provider_ids ps))"
proof -
  have "\<forall>(k, v) \<in> set (merge_places ps []). place_id v = Some k \<and> k \<noteq> []"
    by (rule merge_places_ids) simp
  moreover have "\<forall>(k, v) \<in> set m. place_id v = Some k \<and> k \<noteq> [] \<Longrightarrow>
      map place_id (map snd m) = map Some (map fst m)" for m :: places_dict
    by (induction m) auto
  ultimately have "map place_id (map snd (merge_places ps [])) = map Some (map fst (merge_places ps []))"
    by blast
  then show ?thesis
    by (simp only: dedupe_def merge_places_keys_Nil)
qed

lemma dedupe_first:
  assumes "p \<in> set (dedupe ps)"
  shows "\<exists>k. k \<noteq> [] \<and> place_id p = Some k \<and> find (\<lambda>q. place_id q = Some k) ps = Some p"
proof -
  from assms obtain k where kv: "(k, p) \<in> set (merge_places ps [])"
    by (auto simp: dedupe_def)
  have "\<forall>(k, v) \<in> set (merge_places ps []). place_id v = Some k \<and> k \<noteq> []"
    by (rule merge_places_ids) simp
  with kv have k: "place_id p = Some k" "k \<noteq> []" by auto
  from merge_places_first[OF kv k(2)] k show ?thesis by auto
qed

lemma search_nearby_Inr:
  assumes "search_nearby e lat lng radius included_types max_results = Inr (places, m)"
  shows "places = py_slice_to max_results (dedupe (raw_records e lat lng radius included_types))"
    and "m = \<lparr>meta_requests_made = length (type_groups_of included_types),
           meta_max_requests = length (type_groups_of included_types),
           meta_raw_places = length (raw_records e lat lng radius included_types),
           meta_unique_places = length (dedupe (raw_records e lat lng radius included_types)),
           meta_truncated =
             (int (length (dedupe (raw_records e lat lng radius included_types)))
                > max_results)\<rparr>"
proof -
  from assms have "client_error e = None"
    by (cases "client_error e") (simp_all add: search_nearby_def)
  from search_nearby_eq[OF this, of lat lng radius included_types max_results] assms
  show "places = py_slice_to max_results (dedupe (raw_records e lat lng radius included_types))"
    and "m = \<lparr>meta_requests_made = length (type_groups_of included_types),
           meta_max_requests = length (type_groups_of included_types),
           meta_raw_places = length (raw_records e lat lng radius included_types),
           meta_unique_places = length (dedupe (raw_records e lat lng radius included_types)),
           meta_truncated =
             (int (length (dedupe (raw_records e lat lng radius included_types)))
                > max_results)\<rparr>"
    by simp_all
qed

lemma once_if_distinct:
  "distinct (map f xs) \<Longrightarrow> y \<in> f ` set xs \<Longrightarrow> length (filter (\<lambda>x. f x = y) xs) = 1"
proof (induction xs)
  case Nil
  then show ?case by simp
next
  case (Cons x xs)
  show ?case
  proof (cases "f x = y")
    case True
    from Cons.prems(1) have "f x \<notin> f ` set xs" by simp
    then have "\<forall>z \<in> set xs. f z \<noteq> f x" by (metis imageI)
    with True have "\<forall>z \<in> set xs. f z \<noteq> y" by simp
    then have "filter (\<lambda>x. f x = y) xs = []"
      by (simp add: filter_empty_conv)
    with True show ?thesis by simp
  next
    case False
    with Cons show ?thesis by auto
  qed
qed

lemma dedup_of_result:
  assumes "search_nearby e lat lng radius included_types max_results = Inr (places, m)"
  shows "distinct (map place_id places) \<and>
         (\<forall>p \<in> set places. \<exists>k. k \<noteq> [] \<and> place_id p = Some k \<and>
              find (\<lambda>q. place_id q = Some k) (raw_records e lat lng radius included_types)
                = Some p) \<and>
         map place_id places =
           map Some (py_slice_to max_results
             (first_seen (provider_ids (raw_records e lat lng radius included_types)))) \<and>
         (\<not> meta_truncated m \<longrightarrow>
            (\<forall>k \<in> set (provider_ids (raw_records e lat lng radius included_types)).
               length (filter (\<lambda>p. place_id p = Some k) places) = 1))"
proof -
  let ?raw = "raw_records e lat lng radius included_types"
  note r = search_nearby_Inr[OF assms]
  obtain n where n: "places = take n (dedupe ?raw)"
    using r(1) py_slice_to_take[of max_results "dedupe ?raw"] by auto
  have ids: "map place_id places =
        map Some (py_slice_to max_results (first_seen (provider_ids ?raw)))"
    by (simp add: r(1) py_slice_to_map dedupe_ids)
  have d: "distinct (map place_id places)"
    by (simp add: n take_map[symmetric] dedupe_ids distinct_map distinct_first_seen)
  have f: "\<forall>p \<in> set places. \<exists>k. k \<noteq> [] \<and> place_id p = Some k \<and>
              find (\<lambda>q. place_id q = Some k) ?raw = Some p"
    using n dedupe_first[of _ ?raw] by (auto dest: in_set_takeD)
  have c: "\<forall>k \<in> set (provider_ids ?raw).
               length (filter (\<lambda>p. place_id p = Some k) places) = 1"
    if "\<not> meta_truncated m"
  proof
    fix k assume k: "k \<in> set (provider_ids ?raw)"
    from that r(2) have "int (length (dedupe ?raw)) \<le> max_results" by simp
    then have "places = dedupe ?raw" using r(1) by (simp add: py_slice_to_all)
    then have "map place_id places = map Some (first_seen (provider_ids ?raw))"
      by (simp add: dedupe_ids)
    then have "set (map place_id places) = Some ` set (provider_ids ?raw)"
      by (simp add: set_first_seen)
    with k have "Some k \<in> place_id ` set places" by auto
    with d show "length (filter (\<lambda>p. place_id p = Some k) places) = 1"
      by (rule once_if_distinct)
  qed
  from d f ids c show ?thesis by blast
qed

text \<open>
  Claim C3. Whatever the groups answer, overlapping ids included, \<open>search_nearby\<close>
  returns a sequence of records with pairwise distinct ids; each returned record is the
  first record with its id in the raw results, taken group after group (a later record
  with the same id is dropped without an error); the ids come in the order in which
  they first occur, which is the insertion order of the merge, cut to \<open>max_results\<close>;
  and unless the result is truncated every id of the raw results occurs exactly once.
\<close>

theorem search_nearby_dedup:
  assumes "client_error e = None"
  shows "\<exists>places m.
           search_nearby e lat lng radius included_types max_results = Inr (places, m) \<and>
           distinct (map place_id places) \<and>
           (\<forall>p \<in> set places. \<exists>k. k \<noteq> [] \<and> place_id p = Some k \<and>
                find (\<lambda>q. place_id q = Some k) (raw_records e lat lng radius included_types)
                  = Some p) \<and>
           map place_id places =
             map Some (py_slice_to max_results
               (first_seen (provider_ids (raw_records e lat lng radius included_types)))) \<and>
           (\<not> meta_truncated m \<longrightarrow>
              (\<forall>k \<in> set (provider_ids (raw_records e lat lng radius included_types)).
                 length (filter (\<lambda>p. place_id p = Some k) places) = 1))"
proof -
  from search_nearby_eq[OF assms, of lat lng radius included_types max_results]
  obtain places m where
    run: "search_nearby e lat lng radius included_types max_results = Inr (places, m)"
    by blast
  from dedup_of_result[OF run] run show ?thesis by blast
qed

theorem search_nearby_dedup_witness:
  "client_error demo_env = None \<and>
   search_nearby demo_env demo_lat demo_lng 1500 None 300 =
     Inr ([demo_place ''a'' ''Alpha'', demo_place ''b'' ''Beta'', demo_place ''c'' ''Gamma''],
          \<lparr>meta_requests_made = 15, meta_max_requests = 15, meta_raw_places = 4,
           meta_unique_places = 3, meta_truncated = False\<rparr>) \<and>
   raw_records demo_env demo_lat demo_lng 1500 None =
     [demo_place ''a'' ''Alpha'', demo_place ''b'' ''Beta'',
      demo_place ''b'' ''Beta Cafe'', demo_place ''c'' ''Gamma''] \<and>
   distinct (map place_id
     [demo_place ''a'' ''Alpha'', demo_place ''b'' ''Beta'', demo_place ''c'' ''Gamma'']) \<and>
   length (filter (\<lambda>p. place_id p = Some ''b'')
     [demo_place ''a'' ''Alpha'', demo_place ''b'' ''Beta'', demo_place ''c'' ''Gamma'']) = 1"
proof -
  have h: "client_error demo_env = None"
    by (simp add: demo_env_def)
  have run: "search_nearby demo_env demo_lat demo_lng 1500 None 300 =
     Inr ([demo_place ''a'' ''Alpha'', demo_place ''b'' ''Beta'', demo_place ''c'' ''Gamma''],
          \<lparr>meta_requests_made = 15, meta_max_requests = 15, meta_raw_places = 4,
           meta_unique_places = 3, meta_truncated = False\<rparr>)"
    by (simp add: search_nearby_def demo_env_def gather_settles type_groups_of_def
        DEFAULT_TYPE_GROUPS_def fetch_group_def demo_provider_def add_place_def
        demo_place_def py_slice_to_def)
  have raw: "raw_records demo_env demo_lat demo_lng 1500 None =
     [demo_place ''a'' ''Alpha'', demo_place ''b'' ''Beta'',
      demo_place ''b'' ''Beta Cafe'', demo_place ''c'' ''Gamma'']"
    by (simp add: raw_records_def demo_env_def type_groups_of_def DEFAULT_TYPE_GROUPS_def
        fetch_group_def demo_provider_def)
  from search_nearby_dedup[OF h, of demo_lat demo_lng 1500 None 300]
  have d: "distinct (map place_id
     [demo_place ''a'' ''Alpha'', demo_place ''b'' ''Beta'', demo_place ''c'' ''Gamma''])"
    unfolding run by auto
  have once: "length (filter (\<lambda>p. place_id p = Some ''b'')
     [demo_place ''a'' ''Alpha'', demo_place ''b'' ''Beta'', demo_place ''c'' ''Gamma'']) = 1"
    by (simp add: demo_place_def)
  from h run raw d once show ?thesis by blast
qed

lemma truncation_of_result:
  assumes "search_nearby e lat lng radius included_types max_results = Inr (places, m)"
    and "0 \<le> max_results"
  shows "meta_unique_places m = length (dedupe (raw_records e lat lng radius included_types)) \<and>
         (int (meta_unique_places m) > max_results \<longrightarrow>
            places = take (nat max_results) (dedupe (raw_records e lat lng radius included_types)) \<and>
            length places = nat max_results \<and> meta_truncated m) \<and>
         (int (meta_unique_places m) \<le> max_results \<longrightarrow>
            places = dedupe (raw_records e lat lng radius included_types) \<and>
            \<not> meta_truncated m)"
proof -
  note r = search_nearby_Inr[OF assms(1)]
  from r(2) have u: "meta_unique_places m =
      length (dedupe (raw_records e lat lng radius included_types))"
    and t: "meta_truncated m =
      (int (length (dedupe (raw_records e lat lng radius included_types))) > max_results)"
    by simp_all
  from assms(2) have s: "py_slice_to max_results xs = take (nat max_results) xs"
    for xs :: "place list"
    by (simp add: py_slice_to_def)
  show ?thesis
    using u t r(1) assms(2) by (auto simp: s)
qed

text \<open>
  Claim C4. For a search with \<open>max_results\<close> not negative (a request has
  \<open>1 \<le> max_results \<le> 300\<close>): the metadata report the length of the merged,
  deduplicated sequence as \<open>unique_places\<close>; when that count exceeds \<open>max_results\<close>
  the result is exactly the first \<open>max_results\<close> records of the merge and
  \<open>truncated\<close> is true; when it does not, the result is the whole merged sequence and
  \<open>truncated\<close> is false.
\<close>

theorem search_nearby_truncation:
  assumes "client_error e = None" and "0 \<le> max_results"
  shows "\<exists>places m.
           search_nearby e lat lng radius included_types max_results = Inr (places, m) \<and>
           meta_unique_places m =
             length (dedupe (raw_records e lat lng radius included_types)) \<and>
           (int (meta_unique_places m) > max_results \<longrightarrow>
              places = take (nat max_results)
                         (dedupe (raw_records e lat lng radius included_types)) \<and>
              length places = nat max_results \<and> meta_truncated m) \<and>
           (int (meta_unique_places m) \<le> max_results \<longrightarrow>
              places = dedupe (raw_records e lat lng radius included_types) \<and>
              \<not> meta_truncated m)"
proof -
  from search_nearby_eq[OF assms(1), of lat lng radius included_types max_results]
  obtain places m where
    run: "search_nearby e lat lng radius included_types max_results = Inr (places, m)"
    by blast
  from truncation_of_result[OF run assms(2)] run show ?thesis by blast
qed

theorem search_nearby_truncation_witness:
  "client_error demo_env = None \<and> (0::int) \<le> 2 \<and>
   dedupe (raw_records demo_env demo_lat demo_lng 1500 None) =
     [demo_place ''a'' ''Alpha'', demo_place ''b'' ''Beta'', demo_place ''c'' ''Gamma''] \<and>
   (\<exists>places m. search_nearby demo_env demo_lat demo_lng 1500 None 2 = Inr (places, m) \<and>
      places = [demo_place ''a'' ''Alpha'', demo_place ''b'' ''Beta''] \<and> meta_truncated m) \<and>
   (\<exists>places m. search_nearby demo_env demo_lat demo_lng 1500 None 300 = Inr (places, m) \<and>
      places = [demo_place ''a'' ''Alpha'', demo_place ''b'' ''Beta'', demo_place ''c'' ''Gamma'']
      \<and> \<not> meta_truncated m)"
proof -
  have h: "client_error demo_env = None"
    by (simp add: demo_env_def)
  have le: "(0::int) \<le> 2" and le': "(0::int) \<le> 300"
    by simp_all
  have merged: "dedupe (raw_records demo_env demo_lat demo_lng 1500 None) =
     [demo_place ''a'' ''Alpha'', demo_place ''b'' ''Beta'', demo_place ''c'' ''Gamma'']"
    by (simp add: dedupe_def raw_records_def demo_env_def type_groups_of_def
        DEFAULT_TYPE_GROUPS_def fetch_group_def demo_provider_def add_place_def demo_place_def)
  from search_nearby_truncation[OF h le, of demo_lat demo_lng 1500 None]
  have a: "\<exists>places m. search_nearby demo_env demo_lat demo_lng 1500 None 2 = Inr (places, m) \<and>
      places = [demo_place ''a'' ''Alpha'', demo_place ''b'' ''Beta''] \<and> meta_truncated m"
    unfolding merged by auto
  from search_nearby_truncation[OF h le', of demo_lat demo_lng 1500 None]
  have b: "\<exists>places m. search_nearby demo_env demo_lat demo_lng 1500 None 300 = Inr (places, m) \<and>
      places = [demo_place ''a'' ''Alpha'', demo_place ''b'' ''Beta'', demo_place ''c'' ''Gamma'']
      \<and> \<not> meta_truncated m"
    unfolding merged by auto
  from h le merged a b show ?thesis by blast
qed

lemma fetch_group_projr:
  "fetch_group e lat lng radius g =
     (if isl (provider e lat lng radius g) then [] else projr (provider e lat lng radius g))"
  by (cases "provider e lat lng radius g") (simp_all add: fetch_group_def)

lemma raw_records_successful:
  "raw_records e lat lng radius included_types =
     successful_records e lat lng radius included_types"
proof -
  have "concat (map (fetch_group e lat lng radius) gs) =
        concat (map (\<lambda>g. projr (provider e lat lng radius g))
                  (filter (\<lambda>g. \<not> isl (provider e lat lng radius g)) gs))" for gs
    by (induction gs) (simp_all add: fetch_group_projr)
  then show ?thesis
    by (simp add: raw_records_def successful_records_def successful_groups_def)
qed

lemma filter_all_but_one:
  assumes "i < length xs" and "\<not> P (xs ! i)"
    and "\<forall>j < length xs. j \<noteq> i \<longrightarrow> P (xs ! j)"
  shows "length (filter P xs) = length xs - 1"
proof -
  have xs: "xs = take i xs @ xs ! i # drop (Suc i) xs"
    using assms(1) by (rule id_take_nth_drop)
  have a: "filter P (take i xs) = take i xs"
    using assms(1,3) by (auto simp: filter_id_conv in_set_conv_nth)
  have b: "filter P (drop (Suc i) xs) = drop (Suc i) xs"
    using assms(1,3) by (auto simp: filter_id_conv in_set_conv_nth)
  have "filter P xs = filter P (take i xs @ xs ! i # drop (Suc i) xs)"
    using xs by simp
  also have "\<dots> = take i xs @ drop (Suc i) xs"
    using a b assms(2) by simp
  finally show ?thesis using assms(1) by simp
qed

text \<open>
  Claim C2. In a search over \<open>N\<close> groups in which exactly one group request raises
  (it fails or times out) and the others answer, the failing group contributes no record
  and the search does not fail: the \<open>N\<close> requests are all awaited, \<open>N - 1\<close> of them
  succeeded, and the places returned are the merge of the records of these \<open>N - 1\<close>
  groups, deduplicated and cut to \<open>max_results\<close>; when nothing is cut, their ids are
  the union of the ids the successful groups answered. The metadata count what the
  \<open>N - 1\<close> groups answered (\<open>raw_places\<close>, \<open>unique_places\<close>, \<open>truncated\<close>), and
  \<open>requests_made\<close> is \<open>N\<close>, the number of groups attempted.
\<close>

theorem search_nearby_partial_failure:
  assumes "client_error e = None"
    and "i < length (type_groups_of included_types)"
    and "provider e lat lng radius (type_groups_of included_types ! i) = Inl err"
    and "\<forall>j < length (type_groups_of included_types).
           j \<noteq> i \<longrightarrow> \<not> isl (provider e lat lng radius (type_groups_of included_types ! j))"
  shows "\<exists>places m.
           search_nearby e lat lng radius included_types max_results = Inr (places, m) \<and>
           fetch_group e lat lng radius (type_groups_of included_types ! i) = [] \<and>
           length (successful_groups e lat lng radius included_types) =
             length (type_groups_of included_types) - 1 \<and>
           places = py_slice_to max_results
                      (dedupe (successful_records e lat lng radius included_types)) \<and>
           (\<not> meta_truncated m \<longrightarrow>
              place_id ` set places =
                Some ` set (provider_ids (successful_records e lat lng radius included_types))) \<and>
           meta_requests_made m = length (type_groups_of included_types) \<and>
           meta_max_requests m = length (type_groups_of included_types) \<and>
           meta_raw_places m = length (successful_records e lat lng radius included_types) \<and>
           meta_unique_places m =
             length (dedupe (successful_records e lat lng radius included_types)) \<and>
           meta_truncated m =
             (int (length (dedupe (successful_records e lat lng radius included_types)))
                > max_results)"
proof -
  let ?ok = "successful_records e lat lng radius included_types"
  let ?places = "py_slice_to max_results (dedupe ?ok)"
  let ?m = "\<lparr>meta_requests_made = length (type_groups_of included_types),
           meta_max_requests = length (type_groups_of included_types),
           meta_raw_places = length ?ok,
           meta_unique_places = length (dedupe ?ok),
           meta_truncated = (int (length (dedupe ?ok)) > max_results)\<rparr>"
  have run: "search_nearby e lat lng radius included_types max_results = Inr (?places, ?m)"
    using search_nearby_eq[OF assms(1), of lat lng radius included_types max_results]
    by (simp add: raw_records_successful)
  have zero: "fetch_group e lat lng radius (type_groups_of included_types ! i) = []"
    using assms(3) by (simp add: fetch_group_def)
  have n: "length (successful_groups e lat lng radius included_types) =
             length (type_groups_of included_types) - 1"
    unfolding successful_groups_def
    using assms(2,3,4) by (intro filter_all_but_one) auto
  have union: "place_id ` set ?places = Some ` set (provider_ids ?ok)"
    if "\<not> meta_truncated ?m"
  proof -
    from that have "?places = dedupe ?ok" by (simp add: py_slice_to_all)
    then have "map place_id ?places = map Some (first_seen (provider_ids ?ok))"
      by (simp add: dedupe_ids)
    then have "set (map place_id ?places) = set (map Some (first_seen (provider_ids ?ok)))"
      by simp
    then show ?thesis by (simp add: set_first_seen)
  qed
  show ?thesis
    using run zero n union by (intro exI[of _ ?places] exI[of _ ?m]) simp
qed

theorem search_nearby_partial_failure_witness:
  "client_error demo_env = None \<and>
   (12::nat) < length (type_groups_of None) \<and>
   provider demo_env demo_lat demo_lng 1500 (type_groups_of None ! 12) =
     Inl (Raised ''ReadTimeout'' '''') \<and>
   length (successful_groups demo_env demo_lat demo_lng 1500 None) = 14 \<and>
   (\<exists>places m.
      search_nearby demo_env demo_lat demo_lng 1500 None 300 = Inr (places, m) \<and>
      places = py_slice_to 300
                 (dedupe (successful_records demo_env demo_lat demo_lng 1500 None)) \<and>
      meta_requests_made m = 15)"
proof -
  have groups: "type_groups_of None = DEFAULT_TYPE_GROUPS"
    by (simp add: type_groups_of_def DEFAULT_TYPE_GROUPS_def)
  have h1: "client_error demo_env = None"
    by (simp add: demo_env_def)
  have h2: "(12::nat) < length (type_groups_of None)"
    by (simp add: groups DEFAULT_TYPE_GROUPS_def)
  have h3: "provider demo_env demo_lat demo_lng 1500 (type_groups_of None ! 12) =
     Inl (Raised ''ReadTimeout'' '''')"
    by (simp add: groups DEFAULT_TYPE_GROUPS_def demo_env_def demo_provider_def)
  have h4: "\<forall>j < length (type_groups_of None). j \<noteq> 12 \<longrightarrow>
      \<not> isl (provider demo_env demo_lat demo_lng 1500 (type_groups_of None ! j))"
    by (simp add: groups DEFAULT_TYPE_GROUPS_def demo_env_def demo_provider_def
        All_less_Suc eval_nat_numeral)
  from search_nearby_partial_failure[OF h1 h2 h3 h4, of 300] h1 h2 h3
  show ?thesis
    by (auto simp: groups DEFAULT_TYPE_GROUPS_def)
qed

text \<open>
  Claim C10. The result of \<open>search_nearby\<close> depends on the responses of the groups
  only: two environments in which the client opens alike and every group gets the same
  response give the same places and the same metadata, whatever the latencies of the
  requests (hence the order in which they complete) are; and the places are the merge of
  the responses taken in the order the groups were submitted.
\<close>

theorem search_nearby_deterministic:
  assumes "client_error e1 = client_error e2"
    and "\<forall>g \<in> set (type_groups_of included_types).
           provider e1 lat lng radius g = provider e2 lat lng radius g"
  shows "search_nearby e1 lat lng radius included_types max_results =
           search_nearby e2 lat lng radius included_types max_results \<and>
         (\<forall>places m.
            search_nearby e1 lat lng radius included_types max_results = Inr (places, m) \<longrightarrow>
            places = py_slice_to max_results
                       (dedupe (concat (map (fetch_group e2 lat lng radius)
                                          (type_groups_of included_types)))))"
proof -
  have raw: "raw_records e1 lat lng radius included_types =
             raw_records e2 lat lng radius included_types"
    using assms(2) by (auto simp: raw_records_def fetch_group_def intro!: arg_cong[of _ _ concat])
  have eq: "search_nearby e1 lat lng radius included_types max_results =
           search_nearby e2 lat lng radius included_types max_results"
  proof (cases "client_error e2")
    case None
    with assms(1) have "client_error e1 = None" by simp
    from search_nearby_eq[OF this] search_nearby_eq[OF None] raw show ?thesis by simp
  next
    case (Some err)
    with assms(1) show ?thesis by (simp add: search_nearby_def)
  qed
  moreover have "places = py_slice_to max_results
                       (dedupe (concat (map (fetch_group e2 lat lng radius)
                                          (type_groups_of included_types))))"
    if "search_nearby e1 lat lng radius included_types max_results = Inr (places, m)"
    for places m
    using search_nearby_Inr(1)[OF that] raw by (simp add: raw_records_def)
  ultimately show ?thesis by blast
qed

theorem search_nearby_deterministic_witness:
  "client_error (demo_env\<lparr>latency := \<lambda>types. length types\<rparr>) = client_error demo_env \<and>
   completion_order (\<lambda>i. latency demo_env (type_groups_of None ! i))
       (length (type_groups_of None)) =
     [6, 4, 5, 1, 7, 11, 10, 14, 3, 13, 2, 9, 8, 12, 0] \<and>
   completion_order
       (\<lambda>i. latency (demo_env\<lparr>latency := \<lambda>types. length types\<rparr>) (type_groups_of None ! i))
       (length (type_groups_of None)) =
     [0, 12, 2, 3, 10, 11, 13, 14, 1, 4, 5, 6, 7, 8, 9] \<and>
   search_nearby (demo_env\<lparr>latency := \<lambda>types. length types\<rparr>) demo_lat demo_lng 1500 None 300 =
     search_nearby demo_env demo_lat demo_lng 1500 None 300 \<and>
   search_nearby demo_env demo_lat demo_lng 1500 None 300 =
     Inr ([demo_place ''a'' ''Alpha'', demo_place ''b'' ''Beta'', demo_place ''c'' ''Gamma''],
          \<lparr>meta_requests_made = 15, meta_max_requests = 15, meta_raw_places = 4,
           meta_unique_places = 3, meta_truncated = False\<rparr>)"
proof -
  have h1: "client_error (demo_env\<lparr>latency := \<lambda>types. length types\<rparr>) = client_error demo_env"
    by simp
  have h2: "\<forall>g \<in> set (type_groups_of None).
      provider (demo_env\<lparr>latency := \<lambda>types. length types\<rparr>) demo_lat demo_lng 1500 g =
      provider demo_env demo_lat demo_lng 1500 g"
    by simp
  have o1: "completion_order (\<lambda>i. latency demo_env (type_groups_of None ! i))
       (length (type_groups_of None)) =
     [6, 4, 5, 1, 7, 11, 10, 14, 3, 13, 2, 9, 8, 12, 0]"
    by (simp add: completion_order_def type_groups_of_def DEFAULT_TYPE_GROUPS_def demo_env_def
        upt_rec)
  have o2: "completion_order
       (\<lambda>i. latency (demo_env\<lparr>latency := \<lambda>types. length types\<rparr>) (type_groups_of None ! i))
       (length (type_groups_of None)) =
     [0, 12, 2, 3, 10, 11, 13, 14, 1, 4, 5, 6, 7, 8, 9]"
    by (simp add: completion_order_def type_groups_of_def DEFAULT_TYPE_GROUPS_def upt_rec)
  have run: "search_nearby demo_env demo_lat demo_lng 1500 None 300 =
     Inr ([demo_place ''a'' ''Alpha'', demo_place ''b'' ''Beta'', demo_place ''c'' ''Gamma''],
          \<lparr>meta_requests_made = 15, meta_max_requests = 15, meta_raw_places = 4,
           meta_unique_places = 3, meta_truncated = False\<rparr>)"
    by (simp add: search_nearby_def demo_env_def gather_settles type_groups_of_def
        DEFAULT_TYPE_GROUPS_def fetch_group_def demo_provider_def add_place_def
        demo_place_def py_slice_to_def)
  from search_nearby_deterministic[OF h1 h2, of 300] h1 o1 o2 run
  show ?thesis by simp
qed

section \<open>The cache backends\<close>



text \<open>
  Claim C9. In \<open>RedisCache\<close> an exception raised by the backend during \<open>get\<close>,
  \<open>set\<close> or \<open>delete\<close> is caught: \<open>get\<close> returns \<open>None\<close>, \<open>set\<close> completes
  without raising and \<open>delete\<close> returns \<open>False\<close>, the store being left as it was; and
  whatever the backend does, none of the three methods raises.
\<close>

theorem RedisCache_errors_caught:
  "RedisCache_get (Some err) t store key = Inr None \<and>
   RedisCache_set (Some err) t store key place_ids ttl_seconds = (Inr (), store) \<and>
   RedisCache_delete (Some err) t store key = (Inr False, store) \<and>
   (\<forall>fault. \<not> isl (RedisCache_get fault t store key) \<and>
            \<not> isl (fst (RedisCache_set fault t store key place_ids ttl_seconds)) \<and>
            \<not> isl (fst (RedisCache_delete fault t store key)))"
  by (auto simp: RedisCache_get_def RedisCache_set_def RedisCache_delete_def
      redis_get_def redis_setex_def redis_delete_def split: option.splits sum.splits prod.splits)

theorem RedisCache_errors_caught_witness:
  "redis_get (Some (Raised ''ConnectionError'' ''connection refused'')) 5
     [(''k'', [''a''], 10)] ''k'' = Inl (Raised ''ConnectionError'' ''connection refused'') \<and>
   RedisCache_get (Some (Raised ''ConnectionError'' ''connection refused'')) 5
     [(''k'', [''a''], 10)] ''k'' = Inr None \<and>
   RedisCache_get None 5 [(''k'', [''a''], 10)] ''k'' = Inr (Some [''a'']) \<and>
   RedisCache_set (Some (Raised ''ConnectionError'' ''connection refused'')) 5
     [(''k'', [''a''], 10)] ''k'' [''b''] 900 = (Inr (), [(''k'', [''a''], 10)]) \<and>
   RedisCache_delete (Some (Raised ''ConnectionError'' ''connection refused'')) 5
     [(''k'', [''a''], 10)] ''k'' = (Inr False, [(''k'', [''a''], 10)])"
proof -
  have "redis_get (Some (Raised ''ConnectionError'' ''connection refused'')) 5
     [(''k'', [''a''], 10)] ''k'' = Inl (Raised ''ConnectionError'' ''connection refused'')"
    by (simp add: redis_get_def)
  moreover have "RedisCache_get None 5 [(''k'', [''a''], 10)] ''k'' = Inr (Some [''a''])"
    by (simp add: RedisCache_get_def redis_get_def)
  ultimately show ?thesis
    using RedisCache_errors_caught[of "Raised ''ConnectionError'' ''connection refused''" 5
        "[(''k'', [''a''], 10)]" "''k''" "[''b'']" 900]
    by blast
qed

section \<open>The cache key\<close>

lemma sort_mset_eq: "mset xs = mset ys \<Longrightarrow> sort xs = sort (ys :: string list)"
  by (metis properties_for_sort mset_sort sorted_sort)

text \<open>
  Claim C7, as amended. Two queries whose latitudes and whose longitudes round to the
  same value at three decimals (\<open>round(x, 3)\<close>: to the nearest, ties to even), with the
  same radius, and whose categories are the same up to their order, have the same cache
  key. (Coordinates that agree up to the third decimal need not round alike: see the
  counterexample below.)
\<close>

theorem generate_cache_key_rounded:
  assumes "py_round3 lat1 = py_round3 lat2"
    and "py_round3 lng1 = py_round3 lng2"
    and "mset types1 = mset types2"
  shows "generate_cache_key lat1 lng1 radius types1 = generate_cache_key lat2 lng2 radius types2"
  using assms by (simp add: generate_cache_key_def sort_mset_eq[OF assms(3)])

theorem generate_cache_key_rounded_witness:
  "py_round3 (PyFloat False (407128 / 10000)) = py_round3 (PyFloat False (407133 / 10000)) \<and>
   py_round3 (PyFloat True (740060 / 10000)) = py_round3 (PyFloat True (740057 / 10000)) \<and>
   mset [''cafe'', ''bar''] = mset [''bar'', ''cafe''] \<and>
   generate_cache_key (PyFloat False (407128 / 10000)) (PyFloat True (740060 / 10000)) 1500
       [''cafe'', ''bar''] =
     generate_cache_key (PyFloat False (407133 / 10000)) (PyFloat True (740057 / 10000)) 1500
       [''bar'', ''cafe'']"
proof -
  have a: "py_round3 (PyFloat False (407128 / 10000)) = py_round3 (PyFloat False (407133 / 10000))"
    by (simp add: py_round3_def round_half_even_def Let_def)
  have b: "py_round3 (PyFloat True (740060 / 10000)) = py_round3 (PyFloat True (740057 / 10000))"
    by (simp add: py_round3_def round_half_even_def Let_def)
  have c: "mset [''cafe'', ''bar''] = mset [''bar'', ''cafe'']"
    by (simp add: add.commute)
  from generate_cache_key_rounded[OF a b c, of 1500] a b c show ?thesis by blast
qed

text \<open>
  The claim as first stated fails: 40.7124 and 40.7128 differ in the fourth decimal
  only, and their keys differ.
\<close>

theorem generate_cache_key_fourth_decimal_counterexample:
  "same_to_3dp (PyFloat False (407124 / 10000)) (PyFloat False (407128 / 10000)) \<and>
   generate_cache_key (PyFloat False (407124 / 10000)) (PyFloat True (740060 / 10000)) 1500 []
     = ''nearby:40.712:-74.006:1500:'' \<and>
   generate_cache_key (PyFloat False (407128 / 10000)) (PyFloat True (740060 / 10000)) 1500 []
     = ''nearby:40.713:-74.006:1500:'' \<and>
   generate_cache_key (PyFloat False (407124 / 10000)) (PyFloat True (740060 / 10000)) 1500 []
     \<noteq> generate_cache_key (PyFloat False (407128 / 10000)) (PyFloat True (740060 / 10000)) 1500 []"
  by (simp add: same_to_3dp_def generate_cache_key_def py_round3_def round_half_even_def
      str_float3_def str_int_def str_nat.simps digit_char_def Let_def)

section \<open>The nearby search endpoint\<close>

lemma cache_get_miss_later:
  "t \<le> t2 \<Longrightarrow> cache_get err t c key = Inr None \<Longrightarrow> cache_get err t2 c key = Inr None"
  by (cases c)
    (auto simp: PostgresCache_get_def RedisCache_get_def redis_get_def
      split: option.splits if_splits sum.splits)

lemma reaches_fetch_later:
  "now e \<le> t2 \<Longrightarrow> reaches_fetch e request x_skip_cache w \<Longrightarrow>
   reaches_fetch (e\<lparr>now := t2\<rparr>) request x_skip_cache w"
  by (auto simp: reaches_fetch_def dest: cache_get_miss_later)

lemma search_nearby_same_provider:
  assumes "client_error e1 = client_error e2" and "provider e1 = provider e2"
  shows "search_nearby e1 lat lng radius included_types max_results =
         search_nearby e2 lat lng radius included_types max_results"
proof -
  have "fetch_group e1 lat lng radius = fetch_group e2 lat lng radius"
    using assms(2) by (intro ext) (simp add: fetch_group_def)
  then show ?thesis
    using assms(1)
    by (cases "client_error e2") (simp_all add: search_nearby_def gather_settles Let_def)
qed

lemma fetch_of_now [simp]: "fetch_of (e\<lparr>now := t2\<rparr>) request = fetch_of e request"
  by (simp add: fetch_of_def search_nearby_same_provider[of "e\<lparr>now := t2\<rparr>" e])

lemma fetch_of_db_error [simp]: "fetch_of (e\<lparr>db_error := x\<rparr>) request = fetch_of e request"
  by (simp add: fetch_of_def search_nearby_same_provider[of "e\<lparr>db_error := x\<rparr>" e])

lemma orchestrator_fetch_path:
  assumes "reaches_fetch e request x_skip_cache w"
  shows "search_nearby_restaurants cfg e request x_skip_cache w =
     (case fetch_of e request of
        Inl err \<Rightarrow> (Inl (HTTPException 503 ''Restaurant search temporarily unavailable''), w)
      | Inr (places, places_meta) \<Rightarrow>
          if places = [] then (Inr (empty_response request places_meta), w)
          else
            (case upsert_restaurants e w (map (parse_google_place (now e)) places) of
               Inl err \<Rightarrow>
                 (Inl (HTTPException 500
                         (''Failed to process search results: '' @ type_name err)), w)
             | Inr (restaurants, w1) \<Rightarrow>
                 (case cache_set (cache_error e) (now e) (cache w1) (request_key request)
                         (map google_place_id restaurants) (nearby_cache_ttl_seconds cfg) of
                    (Inl err, c) \<Rightarrow>
                      (Inl (HTTPException 500
                              (''Failed to process search results: '' @ type_name err)),
                       w1\<lparr>cache := c\<rparr>)
                  | (Inr u, c) \<Rightarrow>
                      (Inr \<lparr>resp_restaurants = restaurants,
                            resp_count = length restaurants,
                            resp_cached = False,
                            resp_cache_key = Some (request_key request),
                            resp_requests_made = Some (meta_requests_made places_meta),
                            resp_max_requests = Some (meta_max_requests places_meta),
                            resp_raw_places = Some (meta_raw_places places_meta),
                            resp_unique_places = Some (meta_unique_places places_meta),
                            resp_truncated = Some (meta_truncated places_meta)\<rparr>,
                       w1\<lparr>cache := c\<rparr>))))"
  using assms
  by (auto simp: search_nearby_restaurants_def reaches_fetch_def request_key_def fetch_of_def
      empty_response_def Let_def split: sum.splits option.splits prod.splits)

lemma upsert_row_id: "google_place_id (fst (upsert_row t d gpid s)) = gpid"
  by (auto simp: upsert_row_def Let_def find_Some_iff split: option.splits)

lemma upsert_rows_ok:
  "map d_google_place_id ds = map Some ks \<Longrightarrow> distinct ks \<Longrightarrow> set ks \<inter> set seen = {} \<Longrightarrow>
   \<exists>rs s'. upsert_rows t ds seen s = Inr (rs, s') \<and> map google_place_id rs = ks"
proof (induction ds arbitrary: ks seen s)
  case Nil
  then show ?case by simp
next
  case (Cons d ds)
  from Cons.prems(1) obtain k ks' where ks: "ks = k # ks'" "d_google_place_id d = Some k"
    "map d_google_place_id ds = map Some ks'"
    by (cases ks) auto
  from Cons.prems(2,3) ks(1) have fresh: "k \<notin> set seen" "distinct ks'"
    "set ks' \<inter> set (k # seen) = {}"
    by auto
  from Cons.IH[OF ks(3) fresh(2,3), of "snd (upsert_row t d k s)"]
  obtain rs s' where "upsert_rows t ds (k # seen) (snd (upsert_row t d k s)) = Inr (rs, s')"
    "map google_place_id rs = ks'"
    by blast
  then show ?case
    using ks fresh(1) by (simp add: upsert_row_id)
qed

lemma py_slice_to_distinct: "distinct xs \<Longrightarrow> distinct (py_slice_to m xs)"
  by (simp add: py_slice_to_def)

lemma fetch_of_ids:
  assumes "fetch_of e request = Inr (places, m)"
  shows "\<exists>ks. map place_id places = map Some ks \<and> distinct ks"
proof -
  let ?raw = "raw_records e (req_lat request) (req_lng request) (req_radius request)
                (req_included_types request)"
  from assms have "places = py_slice_to (req_max_results request) (dedupe ?raw)"
    unfolding fetch_of_def by (rule search_nearby_Inr(1))
  then have "map place_id places =
      map Some (py_slice_to (req_max_results request) (first_seen (provider_ids ?raw)))"
    by (simp add: py_slice_to_map dedupe_ids)
  moreover have "distinct (py_slice_to (req_max_results request) (first_seen (provider_ids ?raw)))"
    by (simp add: py_slice_to_distinct distinct_first_seen)
  ultimately show ?thesis by blast
qed

lemma upsert_restaurants_ok:
  assumes "map place_id places = map Some ks" and "distinct ks" and "db_error e = None"
  shows "\<exists>rows w1. upsert_restaurants e w (map (parse_google_place (now e)) places) =
            Inr (rows, w1) \<and> map google_place_id rows = ks \<and> cache w1 = cache w"
proof (cases "places = []")
  case True
  with assms(1) show ?thesis by (simp add: upsert_restaurants_def)
next
  case False
  have "map d_google_place_id (map (parse_google_place (now e)) places) = map Some ks"
    using assms(1) by (simp add: parse_google_place_def comp_def)
  from upsert_rows_ok[OF this assms(2), of "[]" "now e" "(restaurants_table w, id_seq w)"]
  obtain rs s' where "upsert_rows (now e) (map (parse_google_place (now e)) places) []
       (restaurants_table w, id_seq w) = Inr (rs, s')" "map google_place_id rs = ks"
    by auto
  with False assms(3) show ?thesis
    by (simp add: upsert_restaurants_def)
qed

lemma cache_set_get:
  assumes "0 < ttl"
  shows "\<exists>c'. cache_set None t c key ids ttl = (Inr (), c') \<and>
              cache_get None t c' key = Inr (Some ids)"
proof (cases c)
  case (PostgresCache tbl)
  then show ?thesis
    using assms
    by (auto simp: PostgresCache_set_def PostgresCache_get_def timedelta_seconds_def
        update_conv' Let_def split: option.splits)
next
  case (RedisCache store)
  then show ?thesis
    using assms
    by (auto simp: RedisCache_set_def RedisCache_get_def redis_setex_def redis_get_def
        timedelta_seconds_def update_conv')
qed

text \<open>
  Claim C1, as amended. Let the request go on to the provider. If the fetch itself
  raises (the client cannot be opened), the request fails with
  \<open>HTTPException(503)\<close> and the cache and the table are unchanged: no cache write, no
  upsert. If the client opens and every group request fails, the failures are absorbed:
  the request succeeds with an empty list of restaurants, \<open>cached = False\<close> and the
  metadata of a search without records, and the cache and the table are unchanged too.
\<close>

theorem provider_failure_modes:
  assumes "reaches_fetch e request x_skip_cache w"
  shows "(\<forall>err. client_error e = Some err \<longrightarrow>
            search_nearby_restaurants cfg e request x_skip_cache w =
              (Inl (HTTPException 503 ''Restaurant search temporarily unavailable''), w)) \<and>
         (client_error e = None \<and>
          successful_groups e (req_lat request) (req_lng request) (req_radius request)
            (req_included_types request) = [] \<longrightarrow>
            search_nearby_restaurants cfg e request x_skip_cache w =
              (Inr \<lparr>resp_restaurants = [], resp_count = 0, resp_cached = False,
                    resp_cache_key = Some (request_key request),
                    resp_requests_made = Some (length (type_groups_of (req_included_types request))),
                    resp_max_requests = Some (length (type_groups_of (req_included_types request))),
                    resp_raw_places = Some 0,
                    resp_unique_places = Some 0,
                    resp_truncated = Some (req_max_results request < 0)\<rparr>, w))"
proof (intro conjI allI impI)
  fix err assume "client_error e = Some err"
  then have "fetch_of e request = Inl err"
    by (simp add: fetch_of_def search_nearby_def)
  then show "search_nearby_restaurants cfg e request x_skip_cache w =
              (Inl (HTTPException 503 ''Restaurant search temporarily unavailable''), w)"
    by (simp add: orchestrator_fetch_path[OF assms])
next
  assume a: "client_error e = None \<and>
          successful_groups e (req_lat request) (req_lng request) (req_radius request)
            (req_included_types request) = []"
  then have raw: "raw_records e (req_lat request) (req_lng request) (req_radius request)
            (req_included_types request) = []"
    by (simp add: raw_records_successful successful_records_def)
  have "fetch_of e request =
      Inr ([], \<lparr>meta_requests_made = length (type_groups_of (req_included_types request)),
                meta_max_requests = length (type_groups_of (req_included_types request)),
                meta_raw_places = 0, meta_unique_places = 0,
                meta_truncated = (req_max_results request < 0)\<rparr>)"
    using a by (simp add: fetch_of_def search_nearby_eq raw dedupe_def py_slice_to_def)
  then show "search_nearby_restaurants cfg e request x_skip_cache w =
              (Inr \<lparr>resp_restaurants = [], resp_count = 0, resp_cached = False,
                    resp_cache_key = Some (request_key request),
                    resp_requests_made = Some (length (type_groups_of (req_included_types request))),
                    resp_max_requests = Some (length (type_groups_of (req_included_types request))),
                    resp_raw_places = Some 0,
                    resp_unique_places = Some 0,
                    resp_truncated = Some (req_max_results request < 0)\<rparr>, w)"
    by (simp add: orchestrator_fetch_path[OF assms] empty_response_def)
qed

theorem provider_failure_modes_witness:
  "reaches_fetch outage_env demo_request None demo_world \<and>
   search_nearby_restaurants demo_settings
       (outage_env\<lparr>client_error := Some (Raised ''RuntimeError'' ''client closed'')\<rparr>)
       demo_request (Some ''true'') demo_world =
     (Inl (HTTPException 503 ''Restaurant search temporarily unavailable''), demo_world) \<and>
   resp_restaurants
     (projr (fst (search_nearby_restaurants demo_settings outage_env demo_request None
                    demo_world))) = []"
proof -
  have h1: "reaches_fetch outage_env demo_request None demo_world"
    by (simp add: reaches_fetch_def outage_env_def demo_env_def demo_world_def
        PostgresCache_get_def)
  have h0: "reaches_fetch (outage_env\<lparr>client_error := Some (Raised ''RuntimeError'' ''client closed'')\<rparr>)
      demo_request (Some ''true'') demo_world"
    by (simp add: reaches_fetch_def)
  have h2: "client_error outage_env = None"
    by (simp add: outage_env_def demo_env_def)
  have h3: "successful_groups outage_env (req_lat demo_request) (req_lng demo_request)
     (req_radius demo_request) (req_included_types demo_request) = []"
    by (simp add: successful_groups_def outage_env_def)
  from provider_failure_modes[OF h0, of demo_settings]
  have a: "search_nearby_restaurants demo_settings
       (outage_env\<lparr>client_error := Some (Raised ''RuntimeError'' ''client closed'')\<rparr>)
       demo_request (Some ''true'') demo_world =
     (Inl (HTTPException 503 ''Restaurant search temporarily unavailable''), demo_world)"
    by simp
  from provider_failure_modes[OF h1, of demo_settings] h2 h3
  have b: "resp_restaurants
     (projr (fst (search_nearby_restaurants demo_settings outage_env demo_request None
                    demo_world))) = []"
    by simp
  from h1 a b show ?thesis by blast
qed

text \<open>
  The claim as first stated fails: with every group request failing, the handler
  answers with an empty success response, not with \<open>HTTPException(503)\<close>.
\<close>

theorem all_groups_failed_counterexample:
  "reaches_fetch outage_env demo_request None demo_world \<and>
   client_error outage_env = None \<and>
   successful_groups outage_env (req_lat demo_request) (req_lng demo_request)
     (req_radius demo_request) (req_included_types demo_request) = [] \<and>
   search_nearby_restaurants demo_settings outage_env demo_request None demo_world =
     (Inr \<lparr>resp_restaurants = [], resp_count = 0, resp_cached = False,
           resp_cache_key = Some ''nearby:40.713:-74.006:1500:'',
           resp_requests_made = Some 15, resp_max_requests = Some 15,
           resp_raw_places = Some 0, resp_unique_places = Some 0,
           resp_truncated = Some False\<rparr>, demo_world) \<and>
   fst (search_nearby_restaurants demo_settings outage_env demo_request None demo_world) \<noteq>
     Inl (HTTPException 503 ''Restaurant search temporarily unavailable'')"
proof -
  have key: "generate_cache_key demo_lat demo_lng 1500 [] = ''nearby:40.713:-74.006:1500:''"
    by (simp add: generate_cache_key_def py_round3_def round_half_even_def str_float3_def
        str_int_def str_nat.simps digit_char_def demo_lat_def demo_lng_def Let_def)
  have h1: "reaches_fetch outage_env demo_request None demo_world"
    by (simp add: reaches_fetch_def outage_env_def demo_env_def demo_world_def
        PostgresCache_get_def)
  have h2: "client_error outage_env = None"
    by (simp add: outage_env_def demo_env_def)
  have h3: "successful_groups outage_env (req_lat demo_request) (req_lng demo_request)
     (req_radius demo_request) (req_included_types demo_request) = []"
    by (simp add: successful_groups_def outage_env_def)
  have run: "search_nearby_restaurants demo_settings outage_env demo_request None demo_world =
     (Inr \<lparr>resp_restaurants = [], resp_count = 0, resp_cached = False,
           resp_cache_key = Some ''nearby:40.713:-74.006:1500:'',
           resp_requests_made = Some 15, resp_max_requests = Some 15,
           resp_raw_places = Some 0, resp_unique_places = Some 0,
           resp_truncated = Some False\<rparr>, demo_world)"
    by (simp add: search_nearby_restaurants_def demo_request_def key outage_env_def
        demo_env_def demo_world_def PostgresCache_get_def search_nearby_def gather_settles
        type_groups_of_def DEFAULT_TYPE_GROUPS_def fetch_group_def py_slice_to_def)
  from h1 h2 h3 run show ?thesis by simp
qed

lemma empty_fetch_path:
  assumes "reaches_fetch e request x_skip_cache w"
    and "fetch_of e request = Inr ([], m)"
  shows "search_nearby_restaurants cfg e request x_skip_cache w =
           (Inr (empty_response request m), w) \<and>
         (\<forall>t2 \<ge> now e.
            reaches_fetch (e\<lparr>now := t2\<rparr>) request x_skip_cache w \<and>
            search_nearby_restaurants cfg (e\<lparr>now := t2\<rparr>) request x_skip_cache w =
              (Inr (empty_response request m), w))"
proof -
  have first: "search_nearby_restaurants cfg e request x_skip_cache w =
           (Inr (empty_response request m), w)"
    by (simp add: orchestrator_fetch_path[OF assms(1)] assms(2))
  have again: "reaches_fetch (e\<lparr>now := t2\<rparr>) request x_skip_cache w \<and>
        search_nearby_restaurants cfg (e\<lparr>now := t2\<rparr>) request x_skip_cache w =
           (Inr (empty_response request m), w)" if "now e \<le> t2" for t2
  proof -
    from that assms(1) have r: "reaches_fetch (e\<lparr>now := t2\<rparr>) request x_skip_cache w"
      by (rule reaches_fetch_later)
    then show ?thesis
      by (simp add: orchestrator_fetch_path[OF r] assms(2))
  qed
  show ?thesis
    using first again by simp
qed

text \<open>
  Claim C5. When the request goes on to the provider and the fetch succeeds with no
  record after the deduplication, the handler returns the empty result with
  \<open>cached = False\<close> and the metadata of the fetch, and the cache and the table are
  unchanged; so the same request made again at any later time misses the cache again,
  queries the provider again (one request for each group) and gets the same response.
\<close>

theorem empty_fetch_not_cached:
  assumes "reaches_fetch e request x_skip_cache w"
    and "client_error e = None"
    and "dedupe (raw_records e (req_lat request) (req_lng request) (req_radius request)
                   (req_included_types request)) = []"
  shows "\<exists>m. fetch_of e request = Inr ([], m) \<and>
           meta_unique_places m = 0 \<and>
           search_nearby_restaurants cfg e request x_skip_cache w =
             (Inr \<lparr>resp_restaurants = [], resp_count = 0, resp_cached = False,
                   resp_cache_key = Some (request_key request),
                   resp_requests_made = Some (length (type_groups_of (req_included_types request))),
                   resp_max_requests = Some (length (type_groups_of (req_included_types request))),
                   resp_raw_places = Some (meta_raw_places m),
                   resp_unique_places = Some 0,
                   resp_truncated = Some (meta_truncated m)\<rparr>, w) \<and>
           (\<forall>t2 \<ge> now e.
              reaches_fetch (e\<lparr>now := t2\<rparr>) request x_skip_cache
                (snd (search_nearby_restaurants cfg e request x_skip_cache w)) \<and>
              search_nearby_restaurants cfg (e\<lparr>now := t2\<rparr>) request x_skip_cache
                (snd (search_nearby_restaurants cfg e request x_skip_cache w)) =
                search_nearby_restaurants cfg e request x_skip_cache w)"
proof -
  let ?raw = "raw_records e (req_lat request) (req_lng request) (req_radius request)
                (req_included_types request)"
  let ?m = "\<lparr>meta_requests_made = length (type_groups_of (req_included_types request)),
            meta_max_requests = length (type_groups_of (req_included_types request)),
            meta_raw_places = length ?raw,
            meta_unique_places = 0,
            meta_truncated = (req_max_results request < 0)\<rparr>"
  have f: "fetch_of e request = Inr ([], ?m)"
    using assms(3) by (simp add: fetch_of_def search_nearby_eq[OF assms(2)] py_slice_to_def)
  from empty_fetch_path[OF assms(1) f, of cfg] f show ?thesis
    by (intro exI[of _ ?m]) (simp add: empty_response_def)
qed

theorem empty_fetch_not_cached_witness:
  "reaches_fetch quiet_env demo_request None demo_world \<and>
   client_error quiet_env = None \<and>
   dedupe (raw_records quiet_env (req_lat demo_request) (req_lng demo_request)
             (req_radius demo_request) (req_included_types demo_request)) = [] \<and>
   search_nearby_restaurants demo_settings quiet_env demo_request None demo_world =
     (Inr \<lparr>resp_restaurants = [], resp_count = 0, resp_cached = False,
           resp_cache_key = Some ''nearby:40.713:-74.006:1500:'',
           resp_requests_made = Some 15, resp_max_requests = Some 15,
           resp_raw_places = Some 0, resp_unique_places = Some 0,
           resp_truncated = Some False\<rparr>, demo_world) \<and>
   search_nearby_restaurants demo_settings (quiet_env\<lparr>now := now quiet_env + 1\<rparr>)
       demo_request None
       (snd (search_nearby_restaurants demo_settings quiet_env demo_request None demo_world)) =
     search_nearby_restaurants demo_settings quiet_env demo_request None demo_world"
proof -
  have key: "generate_cache_key demo_lat demo_lng 1500 [] = ''nearby:40.713:-74.006:1500:''"
    by (simp add: generate_cache_key_def py_round3_def round_half_even_def str_float3_def
        str_int_def str_nat.simps digit_char_def demo_lat_def demo_lng_def Let_def)
  have h1: "reaches_fetch quiet_env demo_request None demo_world"
    by (simp add: reaches_fetch_def quiet_env_def demo_env_def demo_world_def
        PostgresCache_get_def)
  have h2: "client_error quiet_env = None"
    by (simp add: quiet_env_def demo_env_def)
  have h3: "dedupe (raw_records quiet_env (req_lat demo_request) (req_lng demo_request)
             (req_radius demo_request) (req_included_types demo_request)) = []"
    by (simp add: dedupe_def raw_records_def demo_request_def quiet_env_def
        type_groups_of_def DEFAULT_TYPE_GROUPS_def fetch_group_def)
  have h4: "now quiet_env \<le> now quiet_env + 1" by simp
  have run: "search_nearby_restaurants demo_settings quiet_env demo_request None demo_world =
     (Inr \<lparr>resp_restaurants = [], resp_count = 0, resp_cached = False,
           resp_cache_key = Some ''nearby:40.713:-74.006:1500:'',
           resp_requests_made = Some 15, resp_max_requests = Some 15,
           resp_raw_places = Some 0, resp_unique_places = Some 0,
           resp_truncated = Some False\<rparr>, demo_world)"
    by (simp add: search_nearby_restaurants_def demo_request_def key quiet_env_def
        demo_env_def demo_world_def PostgresCache_get_def search_nearby_def gather_settles
        type_groups_of_def DEFAULT_TYPE_GROUPS_def fetch_group_def py_slice_to_def)
  from empty_fetch_not_cached[OF h1 h2 h3, of demo_settings] h4
  have again: "search_nearby_restaurants demo_settings (quiet_env\<lparr>now := now quiet_env + 1\<rparr>)
       demo_request None
       (snd (search_nearby_restaurants demo_settings quiet_env demo_request None demo_world)) =
     search_nearby_restaurants demo_settings quiet_env demo_request None demo_world"
    by blast
  from h1 h2 h3 run again show ?thesis by blast
qed

text \<open>
  Claim C6. When the request goes on to the provider, the fetch returns records and the
  upsert statement raises, the request fails with \<open>HTTPException(500)\<close>, which is not
  the \<open>503\<close> of a failing provider; the cache and the table are unchanged. The same
  request made again later with the store recovered (and a cache that works, with a
  positive time to live) succeeds: it returns the upserted rows of all the fetched
  places with \<open>cached = False\<close>, and the cache then holds their ids under the key.
\<close>

theorem upsert_failure_is_storage_error:
  assumes "reaches_fetch e request x_skip_cache w"
    and "fetch_of e request = Inr (places, m)"
    and "places \<noteq> []"
    and "upsert_restaurants e w (map (parse_google_place (now e)) places) = Inl err"
  shows "search_nearby_restaurants cfg e request x_skip_cache w =
           (Inl (HTTPException 500 (''Failed to process search results: '' @ type_name err)), w) \<and>
         fst (search_nearby_restaurants cfg e request x_skip_cache w) \<noteq>
           Inl (HTTPException 503 ''Restaurant search temporarily unavailable'') \<and>
         cache (snd (search_nearby_restaurants cfg e request x_skip_cache w)) = cache w \<and>
         (cache_error e = None \<and> 0 < nearby_cache_ttl_seconds cfg \<longrightarrow>
            (\<forall>t2 \<ge> now e. \<exists>resp w2.
               search_nearby_restaurants cfg (e\<lparr>now := t2, db_error := None\<rparr>) request x_skip_cache
                   (snd (search_nearby_restaurants cfg e request x_skip_cache w)) =
                 (Inr resp, w2) \<and>
               \<not> resp_cached resp \<and>
               map Some (map google_place_id (resp_restaurants resp)) = map place_id places \<and>
               resp_count resp = length places \<and>
               cache_get None t2 (cache w2) (request_key request) =
                 Inr (Some (map google_place_id (resp_restaurants resp)))))"
proof -
  have first: "search_nearby_restaurants cfg e request x_skip_cache w =
     (Inl (HTTPException 500 (''Failed to process search results: '' @ type_name err)), w)"
    by (simp add: orchestrator_fetch_path[OF assms(1)] assms(2,3,4))
  have retry: "\<exists>resp w2.
        search_nearby_restaurants cfg (e\<lparr>now := t2, db_error := None\<rparr>) request x_skip_cache w =
          (Inr resp, w2) \<and>
        \<not> resp_cached resp \<and>
        map Some (map google_place_id (resp_restaurants resp)) = map place_id places \<and>
        resp_count resp = length places \<and>
        cache_get None t2 (cache w2) (request_key request) =
          Inr (Some (map google_place_id (resp_restaurants resp)))"
    if c: "cache_error e = None" and ttl: "0 < nearby_cache_ttl_seconds cfg" and t2: "now e \<le> t2"
    for t2
  proof -
    let ?e2 = "e\<lparr>now := t2, db_error := None\<rparr>"
    have "reaches_fetch (e\<lparr>now := t2\<rparr>) request x_skip_cache w"
      using t2 assms(1) by (rule reaches_fetch_later)
    then have r: "reaches_fetch ?e2 request x_skip_cache w"
      by (simp add: reaches_fetch_def)
    have f: "fetch_of ?e2 request = Inr (places, m)"
      using assms(2) by simp
    from fetch_of_ids[OF assms(2)] obtain ks where
      ks: "map place_id places = map Some ks" "distinct ks"
      by blast
    have "db_error ?e2 = None" by simp
    from upsert_restaurants_ok[OF ks this, of w] obtain rows w1 where
      up: "upsert_restaurants ?e2 w (map (parse_google_place t2) places) = Inr (rows, w1)"
        "map google_place_id rows = ks" "cache w1 = cache w"
      by auto
    from cache_set_get[OF ttl, of t2 "cache w1" "request_key request" ks] obtain c' where
      cs: "cache_set None t2 (cache w1) (request_key request) ks (nearby_cache_ttl_seconds cfg)
             = (Inr (), c')"
        "cache_get None t2 c' (request_key request) = Inr (Some ks)"
      by blast
    have len: "length rows = length places"
      using up(2) ks(1) by (metis length_map)
    have ids: "map (Some \<circ> google_place_id) rows = map Some ks"
      using up(2) by auto
    show ?thesis
      using f assms(3) up cs c ks(1) len ids
      by (simp add: orchestrator_fetch_path[OF r])
  qed
  show ?thesis
    using first retry by simp
qed

theorem upsert_failure_is_storage_error_witness:
  "reaches_fetch db_down_env demo_request None demo_world \<and>
   upsert_restaurants db_down_env demo_world
     (map (parse_google_place (now db_down_env))
        [demo_place ''a'' ''Alpha'', demo_place ''b'' ''Beta'', demo_place ''c'' ''Gamma''])
     = Inl (Raised ''OperationalError'' ''connection refused'') \<and>
   fetch_of db_down_env demo_request =
     Inr ([demo_place ''a'' ''Alpha'', demo_place ''b'' ''Beta'', demo_place ''c'' ''Gamma''],
          \<lparr>meta_requests_made = 15, meta_max_requests = 15, meta_raw_places = 4,
           meta_unique_places = 3, meta_truncated = False\<rparr>) \<and>
   search_nearby_restaurants demo_settings db_down_env demo_request None demo_world =
     (Inl (HTTPException 500 ''Failed to process search results: OperationalError''), demo_world) \<and>
   cache_error db_down_env = None \<and> 0 < nearby_cache_ttl_seconds demo_settings \<and>
   (\<exists>resp w2.
      search_nearby_restaurants demo_settings
          (db_down_env\<lparr>now := now db_down_env + 60000000, db_error := None\<rparr>)
          demo_request None demo_world = (Inr resp, w2) \<and>
      \<not> resp_cached resp \<and> resp_count resp = 3 \<and>
      map google_place_id (resp_restaurants resp) = [''a'', ''b'', ''c''])"
proof -
  have h1: "reaches_fetch db_down_env demo_request None demo_world"
    by (simp add: reaches_fetch_def db_down_env_def demo_env_def demo_world_def
        PostgresCache_get_def)
  have h2: "fetch_of db_down_env demo_request =
     Inr ([demo_place ''a'' ''Alpha'', demo_place ''b'' ''Beta'', demo_place ''c'' ''Gamma''],
          \<lparr>meta_requests_made = 15, meta_max_requests = 15, meta_raw_places = 4,
           meta_unique_places = 3, meta_truncated = False\<rparr>)"
    by (simp add: fetch_of_def demo_request_def db_down_env_def search_nearby_def demo_env_def
        gather_settles type_groups_of_def DEFAULT_TYPE_GROUPS_def fetch_group_def
        demo_provider_def add_place_def demo_place_def py_slice_to_def)
  have h3: "[demo_place ''a'' ''Alpha'', demo_place ''b'' ''Beta'', demo_place ''c'' ''Gamma'']
              \<noteq> []"
    by simp
  have h4: "upsert_restaurants db_down_env demo_world
              (map (parse_google_place (now db_down_env))
                 [demo_place ''a'' ''Alpha'', demo_place ''b'' ''Beta'', demo_place ''c'' ''Gamma''])
            = Inl (Raised ''OperationalError'' ''connection refused'')"
    by (simp add: upsert_restaurants_def db_down_env_def)
  have h5: "cache_error db_down_env = None"
    by (simp add: db_down_env_def demo_env_def)
  have h6: "0 < nearby_cache_ttl_seconds demo_settings"
    by (simp add: demo_settings_def)
  have h7: "now db_down_env \<le> now db_down_env + 60000000"
    by simp
  note th = upsert_failure_is_storage_error[OF h1 h2 h3 h4, of demo_settings]
  from th have first:
    "search_nearby_restaurants demo_settings db_down_env demo_request None demo_world =
     (Inl (HTTPException 500 ''Failed to process search results: OperationalError''), demo_world)"
    by simp
  from th h5 h6 h7 obtain resp w2 where
    retry: "search_nearby_restaurants demo_settings
          (db_down_env\<lparr>now := now db_down_env + 60000000, db_error := None\<rparr>)
          demo_request None
          (snd (search_nearby_restaurants demo_settings db_down_env demo_request None
                  demo_world)) = (Inr resp, w2)"
      "\<not> resp_cached resp"
      "map Some (map google_place_id (resp_restaurants resp)) =
         map place_id [demo_place ''a'' ''Alpha'', demo_place ''b'' ''Beta'',
                       demo_place ''c'' ''Gamma'']"
      "resp_count resp = length [demo_place ''a'' ''Alpha'', demo_place ''b'' ''Beta'',
                                 demo_place ''c'' ''Gamma'']"
    by blast
  from retry(3) have ids: "map google_place_id (resp_restaurants resp) = [''a'', ''b'', ''c'']"
    by (auto simp: demo_place_def)
  from retry(1) first have
    "search_nearby_restaurants demo_settings
          (db_down_env\<lparr>now := now db_down_env + 60000000, db_error := None\<rparr>)
          demo_request None demo_world = (Inr resp, w2)"
    by simp
  with retry(2,4) ids have "\<exists>resp w2.
      search_nearby_restaurants demo_settings
          (db_down_env\<lparr>now := now db_down_env + 60000000, db_error := None\<rparr>)
          demo_request None demo_world = (Inr resp, w2) \<and>
      \<not> resp_cached resp \<and> resp_count resp = 3 \<and>
      map google_place_id (resp_restaurants resp) = [''a'', ''b'', ''c'']"
    by auto
  with h1 h2 h4 h5 h6 first show ?thesis by blast
qed

end
